theory Spec2Isabelle
  imports Main
begin

section \<open>Password primitives\<close>

text \<open>
  \<^verbatim>\<open>var validBcryptPrefix = regexp.MustCompile(`^\$2[a,b,x,y]{1}\$\d{2}\$.*`)\<close>

  The pattern is a sequence of single-character atoms anchored at the start of the
  text and followed by \<^verbatim>\<open>.*\<close>. \<^verbatim>\<open>MatchString\<close> reports whether the text contains a
  match; the trailing \<^verbatim>\<open>.*\<close> also matches the empty string, so the text matches
  exactly when its first characters match the atoms in order. All atoms are ASCII, so
  matching bytes and matching runes agree.
\<close>

datatype ratom =
    Lit char        \<comment> \<open>an escaped or plain literal character\<close>
  | Class string    \<comment> \<open>a bracket expression: any one of the listed characters\<close>
  | Digit           \<comment> \<open>\<^verbatim>\<open>\d\<close>: an ASCII decimal digit\<close>

fun atom_match :: "ratom \<Rightarrow> char \<Rightarrow> bool" where
  "atom_match (Lit a) c = (c = a)"
| "atom_match (Class cs) c = (c \<in> set cs)"
| "atom_match Digit c = (c \<in> set ''0123456789'')"

fun MatchString :: "ratom list \<Rightarrow> string \<Rightarrow> bool" where
  "MatchString [] s = True"
| "MatchString (a # as) [] = False"
| "MatchString (a # as) (c # s) = (atom_match a c \<and> MatchString as s)"

definition validBcryptPrefix :: "ratom list" where
  "validBcryptPrefix =
     [Lit (CHR ''$''), Lit (CHR ''2''), Class ''a,b,x,y'', Lit (CHR ''$''),
      Digit, Digit, Lit (CHR ''$'')]"

definition HasPrefix :: "string \<Rightarrow> string \<Rightarrow> bool" where
  "HasPrefix s p = (take (length p) s = p)"

definition isBcrypt :: "string \<Rightarrow> bool" where
  "isBcrypt password =
     (if HasPrefix password ''$'' then MatchString validBcryptPrefix password else False)"

text \<open>
  \<^verbatim>\<open>comparePasswords\<close>: the bcrypt comparison is the library's; it is a parameter.
\<close>

definition comparePasswords :: "(string \<Rightarrow> string \<Rightarrow> bool) \<Rightarrow> string \<Rightarrow> string \<Rightarrow> bool" where
  "comparePasswords CompareHashAndPassword serverPassword clientPassword =
     (if isBcrypt serverPassword
      then (if \<not> CompareHashAndPassword serverPassword clientPassword then False else True)
      else if serverPassword \<noteq> clientPassword then False
      else True)"

section \<open>Permission model\<close>

text \<open>
  A Go slice that may be \<^verbatim>\<open>nil\<close> is a \<open>list option\<close>: \<open>None\<close> is \<^verbatim>\<open>nil\<close>,
  \<open>Some []\<close> the empty, non-nil slice. A pointer that may be \<^verbatim>\<open>nil\<close> is an
  \<open>option\<close>. \<^verbatim>\<open>MaxMsgs\<close> (\<^verbatim>\<open>int\<close>) and \<^verbatim>\<open>Expires\<close> (\<^verbatim>\<open>time.Duration\<close>) are only
  compared with 0 and assigned, never computed with, so they are \<open>int\<close>.
\<close>

record SubjectPermission =
  Allow :: "string list option"
  Deny :: "string list option"

record ResponsePermission =
  MaxMsgs :: int
  Expires :: int

record Permissions =
  Publish :: "SubjectPermission option"
  Subscribe :: "SubjectPermission option"
  Response :: "ResponsePermission option"

text \<open>\<^verbatim>\<open>make([]string, len(xs)); copy(dst, xs)\<close>: a fresh slice with the same elements.\<close>

definition copy_slice :: "string list \<Rightarrow> string list" where
  "copy_slice xs = map (\<lambda>x. x) xs"

definition clone_SubjectPermission :: "SubjectPermission option \<Rightarrow> SubjectPermission option" where
  "clone_SubjectPermission p =
     (case p of
        None \<Rightarrow> None
      | Some p \<Rightarrow>
          Some \<lparr> Allow = (case Allow p of None \<Rightarrow> None | Some a \<Rightarrow> Some (copy_slice a)),
                 Deny = (case Deny p of None \<Rightarrow> None | Some d \<Rightarrow> Some (copy_slice d)) \<rparr>)"

definition clone_Permissions :: "Permissions option \<Rightarrow> Permissions option" where
  "clone_Permissions p =
     (case p of
        None \<Rightarrow> None
      | Some p \<Rightarrow>
          Some \<lparr> Publish = (if Publish p \<noteq> None then clone_SubjectPermission (Publish p) else None),
                 Subscribe = (if Subscribe p \<noteq> None then clone_SubjectPermission (Subscribe p) else None),
                 Response = (case Response p of
                               None \<Rightarrow> None
                             | Some r \<Rightarrow> Some \<lparr> MaxMsgs = MaxMsgs r, Expires = Expires r \<rparr>) \<rparr>)"

text \<open>
  \<^verbatim>\<open>validateResponsePermissions\<close> updates the permissions in place; the model returns
  the updated value. The two defaults are constants declared outside this file: they
  are the fields of the parameter \<open>d\<close>.
\<close>

record Defaults =
  DEFAULT_ALLOW_RESPONSE_MAX_MSGS :: int
  DEFAULT_ALLOW_RESPONSE_EXPIRATION :: int

definition validateResponsePermissions :: "Defaults \<Rightarrow> Permissions option \<Rightarrow> Permissions option" where
  "validateResponsePermissions d p =
     (case p of
        None \<Rightarrow> None
      | Some p \<Rightarrow>
          (case Response p of
             None \<Rightarrow> Some p
           | Some r \<Rightarrow>
               (let pub = (case Publish p of None \<Rightarrow> \<lparr> Allow = None, Deny = None \<rparr> | Some sp \<Rightarrow> sp);
                    pub = (if Allow pub = None then pub \<lparr> Allow := Some [] \<rparr> else pub);
                    r = (if MaxMsgs r = 0 then r \<lparr> MaxMsgs := DEFAULT_ALLOW_RESPONSE_MAX_MSGS d \<rparr> else r);
                    r = (if Expires r = 0 then r \<lparr> Expires := DEFAULT_ALLOW_RESPONSE_EXPIRATION d \<rparr> else r)
                in Some (p \<lparr> Publish := Some pub, Response := Some r \<rparr>))))"

section \<open>Data model\<close>

text \<open>
  An account is opaque to this file except for the fields read here. Its methods
  (\<^verbatim>\<open>IsExpired\<close>, \<^verbatim>\<open>hasIssuer\<close>, \<^verbatim>\<open>checkUserRevoked\<close>) are declared elsewhere and are
  among the external operations below. Field names shared by several structs are
  written with the struct's name in front (\<open>User.Username\<close>, \<open>clientOpts.Username\<close>).
\<close>

record Account =
  Name :: string
  Issuer :: string
  claimJWT :: string
  defaultPerms :: "Permissions option"

record NkeyUser =
  Nkey :: string
  Permissions :: "Permissions option"
  Account :: "Account option"
  SigningKey :: string

record User =
  Username :: string
  Password :: string
  Permissions :: "Permissions option"
  Account :: "Account option"

text \<open>The fields of the decoded user and account claims that this file reads or writes.\<close>

record UserClaims =
  Issuer :: string
  IssuerAccount :: string
  Subject :: string
  BearerToken :: bool

record AccountClaims =
  Name :: string
  Subject :: string
  body :: string

text \<open>
  The peer certificate. \<^verbatim>\<open>URIs\<close> holds each URI as \<^verbatim>\<open>u.String()\<close> renders it;
  \<^verbatim>\<open>Subject_String\<close> is \<^verbatim>\<open>cert.Subject.String()\<close>; \<^verbatim>\<open>Subject_ToRDNSequence_String\<close> is
  \<^verbatim>\<open>cert.Subject.ToRDNSequence().String()\<close>; \<^verbatim>\<open>RawSubject\<close> is the result of
  \<^verbatim>\<open>asn1.Unmarshal(cert.RawSubject, &rdns)\<close>: \<open>None\<close> when it returns an error, the
  parsed sequence otherwise. An attribute's \<^verbatim>\<open>Value\<close> is \<open>Some v\<close> when its dynamic
  type is \<^verbatim>\<open>string\<close>.
\<close>

record AttributeTypeAndValue =
  Type :: "int list"
  Value :: "string option"

type_synonym RDNSequence = "AttributeTypeAndValue list list"

record Certificate =
  DNSNames :: "string list"
  EmailAddresses :: "string list"
  URIs :: "string list"
  Subject_String :: string
  Subject_ToRDNSequence_String :: string
  RawSubject :: "RDNSequence option"

record ConnectionState =
  PeerCertificates :: "Certificate list"

record clientOpts =
  Username :: string
  Password :: string
  Token :: string
  JWT :: string
  Nkey :: string
  Sig :: string

text \<open>
  The connection kinds are integer constants declared outside this file; \<open>OTHER n\<close>
  is a kind field holding any value that is none of the four this file names.
\<close>

datatype kind = CLIENT | ROUTER | GATEWAY | LEAF | OTHER int

text \<open>
  The connection: \<^verbatim>\<open>ws\<close> is \<^verbatim>\<open>c.ws != nil\<close>, \<^verbatim>\<open>tlsState\<close> is what
  \<^verbatim>\<open>c.GetTLSConnectionState()\<close> returns.
\<close>

record client =
  kind :: kind
  opts :: clientOpts
  ws :: bool
  nonce :: string
  tlsState :: "ConnectionState option"
  pubKey :: string

record ClusterOpts =
  Username :: string
  Password :: string
  TLSMap :: bool

record GatewayOpts =
  Username :: string
  Password :: string
  TLSMap :: bool

text \<open>Of \<^verbatim>\<open>LeafNode.Users\<close> only the length and the elements are read.\<close>

record LeafNodeOpts =
  Username :: string
  Password :: string
  Account :: string
  Users :: "User list"

record WebsocketOpts =
  Username :: string
  Password :: string
  Token :: string
  NoAuthUser :: string
  TLSMap :: bool

text \<open>
  A custom authenticator is its \<^verbatim>\<open>Check\<close> method. Of \<^verbatim>\<open>TrustedOperators\<close> only the
  length is read.
\<close>

record Options =
  Username :: string
  Password :: string
  Authorization :: string
  NoAuthUser :: string
  TLSMap :: bool
  Users :: "User list option"
  Nkeys :: "NkeyUser list option"
  TrustedOperators :: "string list"
  SystemAccount :: string
  CustomClientAuthentication :: "(client \<Rightarrow> bool) option"
  CustomRouterAuthentication :: "(client \<Rightarrow> bool) option"
  Cluster :: ClusterOpts
  Gateway :: GatewayOpts
  LeafNode :: LeafNodeOpts
  Websocket :: WebsocketOpts

text \<open>
  A Go map that may be \<^verbatim>\<open>nil\<close> is an optional partial function: indexing a \<^verbatim>\<open>nil\<close>
  map finds nothing and ranging over it does nothing.
\<close>

type_synonym users_map = "(string \<rightharpoonup> User) option"
type_synonym nkeys_map = "(string \<rightharpoonup> NkeyUser) option"

definition index :: "('k \<rightharpoonup> 'v) option \<Rightarrow> 'k \<Rightarrow> 'v option" where
  "index m k = (case m of None \<Rightarrow> None | Some f \<Rightarrow> f k)"

record Info =
  AuthRequired :: bool

record srvWebsocket =
  authRequired :: bool
  users :: users_map
  nkeys :: nkeys_map

text \<open>The fields of the server this file reads; \<^verbatim>\<open>s.getOpts()\<close> returns \<^verbatim>\<open>s.opts\<close>.\<close>

record Server =
  info :: Info
  websocket :: srvWebsocket
  users :: users_map
  nkeys :: nkeys_map
  trustedKeys :: "string list option"
  opts :: Options
  accounts :: "string \<rightharpoonup> Account"
  gacc :: "Account option"

definition getOpts :: "Server \<Rightarrow> Options" where
  "getOpts s = Server.opts s"

definition globalAccount :: "Server \<Rightarrow> Account option" where
  "globalAccount s = gacc s"

section \<open>External operations\<close>

text \<open>
  Functions and methods that this file calls and other files or libraries define.
  Each is a parameter, with the error result of the Go function as \<open>None\<close> or
  \<open>False\<close>:
  \<^item> \<^verbatim>\<open>bcrypt.CompareHashAndPassword\<close>: \<open>True\<close> when it returns no error;
  \<^item> \<^verbatim>\<open>jwt.DecodeUserClaims\<close>; \<open>IsBlocking\<close> is \<^verbatim>\<open>juc.Validate(vr)\<close> followed by
    \<^verbatim>\<open>vr.IsBlocking(true)\<close>;
  \<^item> \<^verbatim>\<open>s.LookupAccount\<close> (\<open>None\<close> when the account returned is \<^verbatim>\<open>nil\<close>),
    \<^verbatim>\<open>s.lookupAccount\<close> (\<open>None\<close> on error), \<^verbatim>\<open>s.isTrustedIssuer\<close>;
  \<^item> the account methods \<^verbatim>\<open>hasIssuer\<close>, \<^verbatim>\<open>IsExpired\<close>, \<^verbatim>\<open>checkUserRevoked\<close>;
  \<^item> the two base64 decoders, \<^verbatim>\<open>nkeys.FromPublicKey\<close> and the key's \<^verbatim>\<open>Verify\<close>
    (\<open>True\<close> when it returns no error);
  \<^item> \<^verbatim>\<open>buildInternalNkeyUser\<close>, \<^verbatim>\<open>s.verifyAccountClaims\<close>, the claims' \<^verbatim>\<open>String\<close>,
    \<^verbatim>\<open>s.buildInternalAccount\<close>;
  \<^item> the results of the calls that change state outside this file:
    \<^verbatim>\<open>c.RegisterNkeyUser\<close> and \<^verbatim>\<open>c.registerWithAccount\<close> (\<open>True\<close> when they return no
    error), \<^verbatim>\<open>s.registerAccount\<close> (the account it returns, \<open>None\<close> for \<^verbatim>\<open>nil\<close>) and
    \<^verbatim>\<open>s.updateAccountWithClaimJWT\<close>.
\<close>

datatype update_result = NoError | ErrAccountResolverSameClaims | OtherError

record ext =
  CompareHashAndPassword :: "string \<Rightarrow> string \<Rightarrow> bool"
  DecodeUserClaims :: "string \<Rightarrow> UserClaims option"
  IsBlocking :: "UserClaims \<Rightarrow> bool"
  LookupAccount :: "Server \<Rightarrow> string \<Rightarrow> Account option"
  lookupAccount :: "Server \<Rightarrow> string \<Rightarrow> Account option"
  isTrustedIssuer :: "Server \<Rightarrow> string \<Rightarrow> bool"
  hasIssuer :: "Account \<Rightarrow> string \<Rightarrow> bool"
  IsExpired :: "Account \<Rightarrow> bool"
  checkUserRevoked :: "Account \<Rightarrow> string \<Rightarrow> bool"
  RawURLEncoding_DecodeString :: "string \<Rightarrow> string option"
  StdEncoding_DecodeString :: "string \<Rightarrow> string option"
  FromPublicKey :: "string \<Rightarrow> string option"
  Verify :: "string \<Rightarrow> string \<Rightarrow> string \<Rightarrow> bool"
  buildInternalNkeyUser :: "UserClaims \<Rightarrow> Account \<Rightarrow> NkeyUser"
  verifyAccountClaims :: "Server \<Rightarrow> string \<Rightarrow> AccountClaims option"
  AccountClaims_String :: "AccountClaims \<Rightarrow> string"
  buildInternalAccount :: "Server \<Rightarrow> AccountClaims \<Rightarrow> Account"
  RegisterNkeyUser :: "client \<Rightarrow> NkeyUser \<Rightarrow> bool"
  registerWithAccount :: "client \<Rightarrow> Account option \<Rightarrow> bool"
  registerAccount :: "Server \<Rightarrow> Account \<Rightarrow> Account option"
  updateAccountWithClaimJWT :: "Server \<Rightarrow> Account \<Rightarrow> string \<Rightarrow> update_result"

text \<open>
  The calls that exist to change state outside this file are recorded, in order, as
  the effects an authentication produces. Debug logging and the server lock are not
  modelled: one connection is authenticated at a time.
\<close>

datatype effect =
    Called_RegisterUser User
  | Called_RegisterNkeyUser NkeyUser
  | Called_registerWithAccount "Account option"
  | Called_accountConnectEvent
  | Called_checkExpiration UserClaims
  | Called_registerAccount Account
  | Called_updateAccountWithClaimJWT Account string

text \<open>
  What an authentication function gives back: the verdict, the connection (its
  CONNECT options and public key may have been written) and the effects.
\<close>

type_synonym outcome = "bool \<times> client \<times> effect list"

text \<open>
  A part of a function body either returns from the function or goes on with the
  values of the local variables.
\<close>

datatype ('r, 'a) step = Return 'r | Continue 'a

section \<open>Building the user and nkey tables\<close>

definition assignGlobalAccountToOrphanUsers ::
  "Server \<Rightarrow> nkeys_map \<Rightarrow> users_map \<Rightarrow> nkeys_map \<times> users_map" where
  "assignGlobalAccountToOrphanUsers s nks us =
     (let us' = map_option (\<lambda>m k. map_option
                     (\<lambda>u. if User.Account u = None then u \<lparr> User.Account := gacc s \<rparr> else u) (m k)) us;
          nks' = map_option (\<lambda>m k. map_option
                     (\<lambda>u. if NkeyUser.Account u = None then u \<lparr> NkeyUser.Account := gacc s \<rparr> else u) (m k)) nks
      in (nks', us'))"

text \<open>
  \<^verbatim>\<open>clone\<close> is only called on elements of the configured slices, which are never
  \<^verbatim>\<open>nil\<close>; the model takes the struct itself.
\<close>

definition clone_User :: "User \<Rightarrow> User" where
  "clone_User u = u \<lparr> User.Permissions := clone_Permissions (User.Permissions u) \<rparr>"

definition clone_NkeyUser :: "NkeyUser \<Rightarrow> NkeyUser" where
  "clone_NkeyUser n = n \<lparr> NkeyUser.Permissions := clone_Permissions (NkeyUser.Permissions n) \<rparr>"

text \<open>The body of the loop over \<^verbatim>\<open>nko\<close>: one configured entry as stored in the table.\<close>

definition build_nkey :: "Defaults \<Rightarrow> Server \<Rightarrow> NkeyUser \<Rightarrow> NkeyUser" where
  "build_nkey d s u =
     (let copy = clone_NkeyUser u;
          copy = (case NkeyUser.Account u of
                    None \<Rightarrow> copy
                  | Some a \<Rightarrow> (case accounts s (Account.Name a) of
                                Some v \<Rightarrow> copy \<lparr> NkeyUser.Account := Some v \<rparr>
                              | None \<Rightarrow> copy));
          copy = (if NkeyUser.Permissions copy \<noteq> None
                  then copy \<lparr> NkeyUser.Permissions :=
                                validateResponsePermissions d (NkeyUser.Permissions copy) \<rparr>
                  else copy)
      in copy)"

text \<open>The body of the loop over \<^verbatim>\<open>uo\<close>.\<close>

definition build_user :: "Defaults \<Rightarrow> Server \<Rightarrow> User \<Rightarrow> User" where
  "build_user d s u =
     (let copy = clone_User u;
          copy = (case User.Account u of
                    None \<Rightarrow> copy
                  | Some a \<Rightarrow> (case accounts s (Account.Name a) of
                                Some v \<Rightarrow> copy \<lparr> User.Account := Some v \<rparr>
                              | None \<Rightarrow> copy));
          copy = (if User.Permissions copy \<noteq> None
                  then copy \<lparr> User.Permissions :=
                                validateResponsePermissions d (User.Permissions copy) \<rparr>
                  else copy)
      in copy)"

text \<open>\<^verbatim>\<open>len\<close> and \<^verbatim>\<open>range\<close> see a \<^verbatim>\<open>nil\<close> slice as an empty one.\<close>

definition elems :: "'a list option \<Rightarrow> 'a list" where
  "elems xs = (case xs of None \<Rightarrow> [] | Some l \<Rightarrow> l)"

definition buildNkeysAndUsersFromOptions ::
  "Defaults \<Rightarrow> Server \<Rightarrow> NkeyUser list option \<Rightarrow> User list option \<Rightarrow> nkeys_map \<times> users_map" where
  "buildNkeysAndUsersFromOptions d s nko uo =
     (let nks = (if length (elems nko) > 0
                   then Some (fold (\<lambda>u m. m(NkeyUser.Nkey u \<mapsto> build_nkey d s u))
                                (elems nko) Map.empty)
                   else None);
          us = (if length (elems uo) > 0
                   then Some (fold (\<lambda>u m. m(User.Username u \<mapsto> build_user d s u))
                                (elems uo) Map.empty)
                   else None)
      in assignGlobalAccountToOrphanUsers s nks us)"

section \<open>Configuration of the authorization\<close>

text \<open>
  \<^verbatim>\<open>configureAuthorization\<close> sets up the tables and \<^verbatim>\<open>s.info.AuthRequired\<close> from the
  options; the server of the model always has options. Its last statement calls
  \<^verbatim>\<open>s.wsConfigAuth\<close>, which another file defines: it is the parameter \<open>wsConfigAuth\<close>.
\<close>

definition configureAuthorization ::
  "(Server \<Rightarrow> WebsocketOpts \<Rightarrow> Server) \<Rightarrow> Defaults \<Rightarrow> Server \<Rightarrow> Server" where
  "configureAuthorization wsConfigAuth d s =
     (let opt = getOpts s;
          s = (if CustomClientAuthentication opt \<noteq> None then
                 s \<lparr> info := (info s) \<lparr> AuthRequired := True \<rparr> \<rparr>
               else if length (elems (trustedKeys s)) > 0 then
                 s \<lparr> info := (info s) \<lparr> AuthRequired := True \<rparr> \<rparr>
               else if Nkeys opt \<noteq> None \<or> Options.Users opt \<noteq> None then
                 (case buildNkeysAndUsersFromOptions d s (Nkeys opt) (Options.Users opt) of
                    (nks, us) \<Rightarrow>
                      s \<lparr> Server.nkeys := nks, Server.users := us,
                          info := (info s) \<lparr> AuthRequired := True \<rparr> \<rparr>)
               else if Options.Username opt \<noteq> [] \<or> Authorization opt \<noteq> [] then
                 s \<lparr> info := (info s) \<lparr> AuthRequired := True \<rparr> \<rparr>
               else
                 s \<lparr> Server.users := None, Server.nkeys := None,
                     info := (info s) \<lparr> AuthRequired := False \<rparr> \<rparr>)
      in wsConfigAuth s (Websocket opt))"

section \<open>Configuration validator\<close>

datatype config_error =
    NoAuthUserWithTrustedOperator
  | NoAuthUserButUsersNotDefined string
  | NoAuthUserNotPresent string

text \<open>
  The loop \<^verbatim>\<open>for _, u := range o.Users\<close>: \<open>True\<close> when it returns \<^verbatim>\<open>nil\<close> from inside.
\<close>

fun findNoAuthUser :: "string \<Rightarrow> User list \<Rightarrow> bool" where
  "findNoAuthUser n [] = False"
| "findNoAuthUser n (u # us) = (if User.Username u = n then True else findNoAuthUser n us)"

text \<open>The result is the error returned: \<open>None\<close> is \<^verbatim>\<open>nil\<close>.\<close>

definition validateAuth :: "Options \<Rightarrow> config_error option" where
  "validateAuth opt =
     (if Options.NoAuthUser opt = [] then None
      else if length (TrustedOperators opt) > 0 then Some NoAuthUserWithTrustedOperator
      else if Options.Users opt = None then Some (NoAuthUserButUsersNotDefined (Options.NoAuthUser opt))
      else if findNoAuthUser (Options.NoAuthUser opt) (elems (Options.Users opt)) then None
      else Some (NoAuthUserNotPresent (Options.NoAuthUser opt)))"

section \<open>TLS subject extractor\<close>

text \<open>\<^verbatim>\<open>strings.Join\<close>.\<close>

fun Join :: "string list \<Rightarrow> string \<Rightarrow> string" where
  "Join [] sep = []"
| "Join [x] sep = x"
| "Join (x # y # ys) sep = x @ sep @ Join (y # ys) sep"

definition dcOID :: "int list" where
  "dcOID = [0, 9, 2342, 19200300, 100, 1, 25]"

definition getTLSAuthDCs :: "RDNSequence \<Rightarrow> string" where
  "getTLSAuthDCs rdns =
     Join (fold (\<lambda>rdn dcs.
                   if length rdn = 0 then dcs
                   else fold (\<lambda>atv dcs.
                                case Value atv of
                                  None \<Rightarrow> dcs
                                | Some v \<Rightarrow> if Type atv = dcOID then dcs @ [''DC='' @ v] else dcs)
                          rdn dcs)
             rdns [])
          '',''"

text \<open>
  The predicate \<^verbatim>\<open>fn\<close> is a closure that may write variables of its caller: it takes
  the state \<open>\<sigma>\<close> of those variables and returns it with its answer. Every call of the
  predicate is a step of the state, so a state that records the calls shows which
  candidates were tested and in which order.

  The loop \<^verbatim>\<open>for _, u := range us { if fn(u) { return true } }\<close>: \<open>True\<close> when it
  returns from inside, \<open>False\<close> when it runs to its end.
\<close>

fun range_fn :: "(string \<Rightarrow> 's \<Rightarrow> bool \<times> 's) \<Rightarrow> string list \<Rightarrow> 's \<Rightarrow> bool \<times> 's" where
  "range_fn fn [] \<sigma> = (False, \<sigma>)"
| "range_fn fn (u # us) \<sigma> =
     (case fn u \<sigma> of
        (True, \<sigma>') \<Rightarrow> (True, \<sigma>')
      | (False, \<sigma>') \<Rightarrow> range_fn fn us \<sigma>')"

text \<open>
  The \<^verbatim>\<open>switch\<close> statement: \<open>True\<close> when one of its loops returns \<^verbatim>\<open>true\<close>. The
  first case falls through into the body of the second.
\<close>

definition switch_candidates ::
  "Certificate \<Rightarrow> (string \<Rightarrow> 's \<Rightarrow> bool \<times> 's) \<Rightarrow> 's \<Rightarrow> bool \<times> 's" where
  "switch_candidates cert fn \<sigma> =
     (let hasSANs = length (DNSNames cert) > 0;
          hasEmailAddresses = length (EmailAddresses cert) > 0;
          hasURIs = length (URIs cert) > 0
      in if hasEmailAddresses then
           (case range_fn fn (EmailAddresses cert) \<sigma> of
              (True, \<sigma>') \<Rightarrow> (True, \<sigma>')
            | (False, \<sigma>') \<Rightarrow> range_fn fn (DNSNames cert) \<sigma>')
         else if hasSANs then range_fn fn (DNSNames cert) \<sigma>
         else if hasURIs then range_fn fn (URIs cert) \<sigma>
         else (False, \<sigma>))"

text \<open>
  The statements after the \<^verbatim>\<open>switch\<close>: the RDN sequence with the domain components,
  then the subject of the certificate.
\<close>

definition rdn_then_subject ::
  "RDNSequence option \<Rightarrow> string \<Rightarrow> string \<Rightarrow> (string \<Rightarrow> 's \<Rightarrow> bool \<times> 's) \<Rightarrow> 's \<Rightarrow> bool \<times> 's" where
  "rdn_then_subject raw rdn subject fn \<sigma> =
     (case (case raw of
              None \<Rightarrow> (False, \<sigma>)
            | Some rdns \<Rightarrow>
                (let dcs = getTLSAuthDCs rdns
                 in if length dcs > 0 then fn (Join [rdn, dcs] '','') \<sigma> else (False, \<sigma>))) of
        (True, \<sigma>') \<Rightarrow> (True, \<sigma>')
      | (False, \<sigma>') \<Rightarrow> fn subject \<sigma>')"

definition checkClientTLSCertSubject ::
  "client \<Rightarrow> (string \<Rightarrow> 's \<Rightarrow> bool \<times> 's) \<Rightarrow> 's \<Rightarrow> bool \<times> 's" where
  "checkClientTLSCertSubject c fn \<sigma> =
     (case tlsState c of
        None \<Rightarrow> (False, \<sigma>)
      | Some st \<Rightarrow>
          (case PeerCertificates st of
             [] \<Rightarrow> (False, \<sigma>)
           | cert # _ \<Rightarrow>
               (let hasEmailAddresses = length (EmailAddresses cert) > 0;
                    hasSubject = length (Subject_String cert) > 0;
                    hasURIs = length (URIs cert) > 0
                in if \<not> hasEmailAddresses \<and> \<not> hasSubject \<and> \<not> hasURIs then (False, \<sigma>)
                   else
                     (case switch_candidates cert fn \<sigma> of
                        (True, \<sigma>') \<Rightarrow> (True, \<sigma>')
                      | (False, \<sigma>') \<Rightarrow>
                          rdn_then_subject (RawSubject cert) (Subject_ToRDNSequence_String cert)
                            (Subject_String cert) fn \<sigma>'))))"

section \<open>Credential selector\<close>

record authOpts =
  username :: string
  password :: string
  token :: string
  noAuthUser :: string
  tlsMap :: bool
  users :: users_map
  nkeys :: nkeys_map

text \<open>The zero value of \<^verbatim>\<open>var auth authOpts\<close>.\<close>

definition zero_authOpts :: authOpts where
  "zero_authOpts =
     \<lparr> username = [], password = [], token = [], noAuthUser = [], tlsMap = False,
       users = None, nkeys = None \<rparr>"

text \<open>
  \<^verbatim>\<open>getAuthOpts\<close> fills the struct its caller passes by pointer; the model returns it
  with the result.
\<close>

definition getAuthOpts :: "Server \<Rightarrow> client \<Rightarrow> Options \<Rightarrow> authOpts \<Rightarrow> bool \<times> authOpts" where
  "getAuthOpts s c opt auth =
     (let wsClient = ws c;
          required = AuthRequired (info s);
          required = (if \<not> required \<and> wsClient
                      then srvWebsocket.authRequired (websocket s) else required)
      in if \<not> required then (False, auth)
         else
           (let auth = auth \<lparr> noAuthUser := Options.NoAuthUser opt \<rparr>;
                auth = auth \<lparr> tlsMap := Options.TLSMap opt \<rparr>;
                wo = Websocket opt;
                auth = (if wsClient \<and> WebsocketOpts.NoAuthUser wo \<noteq> []
                        then auth \<lparr> noAuthUser := WebsocketOpts.NoAuthUser wo \<rparr> else auth);
                auth = (if wsClient \<and> WebsocketOpts.TLSMap wo
                        then auth \<lparr> tlsMap := True \<rparr> else auth)
            in if wsClient \<and> srvWebsocket.authRequired (websocket s) then
                 (True, auth \<lparr> username := WebsocketOpts.Username wo,
                               password := WebsocketOpts.Password wo,
                               token := WebsocketOpts.Token wo,
                               authOpts.users := srvWebsocket.users (websocket s),
                               authOpts.nkeys := srvWebsocket.nkeys (websocket s) \<rparr>)
               else
                 (True, auth \<lparr> username := Options.Username opt,
                               password := Options.Password opt,
                               token := Authorization opt,
                               authOpts.users := Server.users s,
                               authOpts.nkeys := Server.nkeys s \<rparr>)))"

section \<open>Authentication of clients and leaf nodes\<close>

text \<open>
  The check of the trusted keys: with trusted keys a user JWT is required, or an nkey
  together with a system account. It returns \<^verbatim>\<open>false\<close> from the function or goes
  on with \<^verbatim>\<open>juc\<close>, the decoded claims or \<^verbatim>\<open>nil\<close>.
\<close>

definition trusted_keys_check :: "ext \<Rightarrow> Server \<Rightarrow> client \<Rightarrow> (bool, UserClaims option) step" where
  "trusted_keys_check x s c =
     (if trustedKeys s \<noteq> None then
        (if JWT (client.opts c) = [] \<and>
            (clientOpts.Nkey (client.opts c) = [] \<or> SystemAccount (Server.opts s) = [])
         then Return False
         else if JWT (client.opts c) \<noteq> [] then
           (case DecodeUserClaims x (JWT (client.opts c)) of
              None \<Rightarrow> Return False
            | Some juc \<Rightarrow> if IsBlocking x juc then Return False else Continue (Some juc))
         else Continue None)
      else Continue None)"

text \<open>
  The closure passed to the TLS subject extractor when users are mapped from the
  client certificate. It writes the variables \<^verbatim>\<open>user\<close> and \<^verbatim>\<open>euser\<close> of the caller:
  they are its state. A lookup that misses sets \<^verbatim>\<open>user\<close> to \<^verbatim>\<open>nil\<close>.
\<close>

definition tls_user_fn :: "users_map \<Rightarrow> string \<Rightarrow> User option \<times> string \<Rightarrow> bool \<times> User option \<times> string" where
  "tls_user_fn m u \<sigma> =
     (case index m u of
        None \<Rightarrow> (False, (None, snd \<sigma>))
      | Some usr \<Rightarrow> (True, (Some usr, u)))"

text \<open>
  The lookup of the candidates in the nkey and user tables. It returns \<^verbatim>\<open>false\<close>
  from the function or goes on with \<^verbatim>\<open>nkey\<close>, \<^verbatim>\<open>user\<close> and the connection, whose
  CONNECT user name and password it may have written.
\<close>

definition lookup_candidates ::
  "Server \<Rightarrow> client \<Rightarrow> authOpts \<Rightarrow> (bool \<times> client, NkeyUser option \<times> User option \<times> client) step" where
  "lookup_candidates s c auth =
     (let hasNkeys = authOpts.nkeys auth \<noteq> None;
          hasUsers = authOpts.users auth \<noteq> None
      in if hasNkeys \<and> clientOpts.Nkey (client.opts c) \<noteq> [] then
           (case index (authOpts.nkeys auth) (clientOpts.Nkey (client.opts c)) of
              None \<Rightarrow> if SystemAccount (Server.opts s) = [] then Return (False, c)
                      else Continue (None, None, c)
            | Some nk \<Rightarrow> Continue (Some nk, None, c))
         else if hasUsers then
           (if tlsMap auth then
              (case checkClientTLSCertSubject c (tls_user_fn (authOpts.users auth)) (None, []) of
                 (authorized, (usr, euser)) \<Rightarrow>
                   if \<not> authorized then Return (False, c)
                   else Continue (None, usr,
                          c \<lparr> client.opts := (client.opts c) \<lparr> clientOpts.Username := euser \<rparr> \<rparr>))
            else
              (let c = (if kind c = CLIENT \<and> clientOpts.Username (client.opts c) = [] \<and>
                           noAuthUser auth \<noteq> []
                        then (case index (authOpts.users auth) (noAuthUser auth) of
                                Some u \<Rightarrow>
                                  c \<lparr> client.opts := (client.opts c)
                                        \<lparr> clientOpts.Username := User.Username u,
                                          clientOpts.Password := User.Password u \<rparr> \<rparr>
                              | None \<Rightarrow> c)
                        else c)
               in if clientOpts.Username (client.opts c) \<noteq> [] then
                    (case index (authOpts.users auth) (clientOpts.Username (client.opts c)) of
                       None \<Rightarrow> Return (False, c)
                     | Some usr \<Rightarrow> Continue (None, Some usr, c))
                  else Continue (None, None, c)))
         else Continue (None, None, c))"

text \<open>
  The verification of the signature against the nonce, written twice in the source
  (for the subject of a user JWT and for the CONNECT nkey): \<open>False\<close> when the source
  returns \<^verbatim>\<open>false\<close> there.
\<close>

definition verify_nonce_signature :: "ext \<Rightarrow> client \<Rightarrow> string \<Rightarrow> bool" where
  "verify_nonce_signature x c key =
     (if Sig (client.opts c) = [] then False
      else
        (case (case RawURLEncoding_DecodeString x (Sig (client.opts c)) of
                 Some sg \<Rightarrow> Some sg
               | None \<Rightarrow> StdEncoding_DecodeString x (Sig (client.opts c))) of
           None \<Rightarrow> False
         | Some sg \<Rightarrow>
             (case FromPublicKey x key of
                None \<Rightarrow> False
              | Some pub \<Rightarrow> Verify x pub (nonce c) sg)))"

text \<open>The branch \<^verbatim>\<open>if juc != nil\<close>: a user JWT was presented and decoded.\<close>

definition user_jwt_path :: "ext \<Rightarrow> Server \<Rightarrow> client \<Rightarrow> UserClaims \<Rightarrow> outcome" where
  "user_jwt_path x s c juc =
     (let issuer = (if IssuerAccount juc \<noteq> [] then IssuerAccount juc else UserClaims.Issuer juc)
      in case LookupAccount x s issuer of
           None \<Rightarrow> (False, c, [])
         | Some acc \<Rightarrow>
             if \<not> isTrustedIssuer x s (Account.Issuer acc) then (False, c, [])
             else if IssuerAccount juc \<noteq> [] \<and> \<not> hasIssuer x acc (UserClaims.Issuer juc)
               then (False, c, [])
             else if IsExpired x acc then (False, c, [])
             else if \<not> BearerToken juc \<and> \<not> verify_nonce_signature x c (UserClaims.Subject juc)
               then (False, c, [])
             else if checkUserRevoked x acc (UserClaims.Subject juc) then (False, c, [])
             else
               (let nk = buildInternalNkeyUser x juc acc
                in if \<not> RegisterNkeyUser x c nk then (False, c, [Called_RegisterNkeyUser nk])
                   else (True, c \<lparr> pubKey := UserClaims.Subject juc \<rparr>,
                         [Called_RegisterNkeyUser nk, Called_accountConnectEvent,
                          Called_checkExpiration juc])))"

text \<open>
  The branch that finds or generates the account named by the CONNECT nkey. It
  returns \<^verbatim>\<open>false\<close> from the function or goes on with the nkey user it built. The
  accounts returned by \<^verbatim>\<open>s.accounts.Load\<close> and \<^verbatim>\<open>s.buildInternalAccount\<close> are not
  \<^verbatim>\<open>nil\<close>, so \<^verbatim>\<open>nkeyAcc != nil\<close> holds where it is tested.
\<close>

definition generated_account_path ::
  "ext \<Rightarrow> Server \<Rightarrow> client \<Rightarrow> (outcome, NkeyUser \<times> effect list) step" where
  "generated_account_path x s c =
     (let k = clientOpts.Nkey (client.opts c);
          mk = (\<lambda>nkeyAcc. \<lparr> NkeyUser.Nkey = k,
                             NkeyUser.Permissions = clone_Permissions (defaultPerms nkeyAcc),
                             NkeyUser.Account = Some nkeyAcc, SigningKey = [] \<rparr>)
      in case accounts s k of
           Some acc \<Rightarrow> Continue (mk acc, [])
         | None \<Rightarrow>
             (case lookupAccount x s (SystemAccount (Server.opts s)) of
                None \<Rightarrow> Return (False, c, [])
              | Some sAcc \<Rightarrow>
                  (case verifyAccountClaims x s (claimJWT sAcc) of
                     None \<Rightarrow> Return (False, c, [])
                   | Some jwtClaim \<Rightarrow>
                       (let jwtClaim = jwtClaim \<lparr> AccountClaims.Name := k \<rparr>;
                            jwtClaim = jwtClaim \<lparr> AccountClaims.Subject := k \<rparr>;
                            claimJwt = AccountClaims_String x jwtClaim;
                            nkeyAcc = (buildInternalAccount x s jwtClaim) \<lparr> claimJWT := claimJwt \<rparr>
                        in case registerAccount x s nkeyAcc of
                             None \<Rightarrow> Continue (mk nkeyAcc, [Called_registerAccount nkeyAcc])
                           | Some acc \<Rightarrow>
                               (case updateAccountWithClaimJWT x s acc claimJwt of
                                  OtherError \<Rightarrow>
                                    Return (False, c,
                                      [Called_registerAccount nkeyAcc,
                                       Called_updateAccountWithClaimJWT acc claimJwt])
                                | _ \<Rightarrow>
                                    Continue (mk acc,
                                      [Called_registerAccount nkeyAcc,
                                       Called_updateAccountWithClaimJWT acc claimJwt]))))))"

definition registerLeafWithAccount :: "ext \<Rightarrow> Server \<Rightarrow> client \<Rightarrow> string \<Rightarrow> outcome" where
  "registerLeafWithAccount x s c account =
     (case (if account \<noteq> []
            then (case lookupAccount x s account of None \<Rightarrow> None | Some a \<Rightarrow> Some (Some a))
            else Some (globalAccount s)) of
        None \<Rightarrow> (False, c, [])
      | Some acc \<Rightarrow>
          if \<not> registerWithAccount x c acc then (False, c, [Called_registerWithAccount acc])
          else (True, c, [Called_registerWithAccount acc]))"

text \<open>
  The statement \<^verbatim>\<open>if nkey == nil && c.kind == CLIENT && ...\<close>: when its condition
  holds the nkey user is taken from the found or generated account.
\<close>

definition nkey_or_generated ::
  "ext \<Rightarrow> Server \<Rightarrow> client \<Rightarrow> NkeyUser option \<Rightarrow> (outcome, NkeyUser option \<times> effect list) step" where
  "nkey_or_generated x s c nk =
     (if nk = None \<and> kind c = CLIENT \<and> clientOpts.Nkey (client.opts c) \<noteq> [] \<and>
         SystemAccount (Server.opts s) \<noteq> []
      then (case generated_account_path x s c of
              Return r \<Rightarrow> Return r
            | Continue (n, es) \<Rightarrow> Continue (Some n, es))
      else Continue (nk, []))"

text \<open>
  The last statements of the function: the nkey candidate, the user candidate, the
  single token or user of a client, the binding of a leaf node. \<open>es\<close> are the effects
  produced so far.
\<close>

definition check_candidates ::
  "ext \<Rightarrow> Server \<Rightarrow> client \<Rightarrow> Options \<Rightarrow> authOpts \<Rightarrow> NkeyUser option \<Rightarrow> User option \<Rightarrow>
   effect list \<Rightarrow> outcome" where
  "check_candidates x s c opt auth nk usr es =
     (case nk of
        Some n \<Rightarrow>
          if \<not> verify_nonce_signature x c (clientOpts.Nkey (client.opts c)) then (False, c, es)
          else if \<not> RegisterNkeyUser x c n then (False, c, es @ [Called_RegisterNkeyUser n])
          else (True, c, es @ [Called_RegisterNkeyUser n])
      | None \<Rightarrow>
          (case usr of
             Some u \<Rightarrow>
               (let ok = comparePasswords (CompareHashAndPassword x) (User.Password u)
                           (clientOpts.Password (client.opts c))
                in if ok then (ok, c, es @ [Called_RegisterUser u, Called_accountConnectEvent])
                   else (ok, c, es))
           | None \<Rightarrow>
               if kind c = CLIENT then
                 (if token auth \<noteq> [] then
                    (comparePasswords (CompareHashAndPassword x) (token auth)
                       (clientOpts.Token (client.opts c)), c, es)
                  else if username auth \<noteq> [] then
                    (if username auth \<noteq> clientOpts.Username (client.opts c) then (False, c, es)
                     else (comparePasswords (CompareHashAndPassword x) (password auth)
                             (clientOpts.Password (client.opts c)), c, es))
                  else (False, c, es))
               else if kind c = LEAF then
                 (case registerLeafWithAccount x s c (LeafNodeOpts.Account (LeafNode opt)) of
                    (b, c', es') \<Rightarrow> (b, c', es @ es'))
               else (False, c, es)))"

text \<open>
  The part of the function after the server lock is released, with the values of the
  local variables at that point.
\<close>

definition after_unlock ::
  "ext \<Rightarrow> Server \<Rightarrow> client \<Rightarrow> Options \<Rightarrow> authOpts \<Rightarrow> UserClaims option \<Rightarrow>
   NkeyUser option \<Rightarrow> User option \<Rightarrow> outcome" where
  "after_unlock x s c opt auth juc nk usr =
     (case juc of
        Some juc \<Rightarrow> user_jwt_path x s c juc
      | None \<Rightarrow>
          (case nkey_or_generated x s c nk of
             Return r \<Rightarrow> r
           | Continue (nk, es) \<Rightarrow> check_candidates x s c opt auth nk usr es))"

definition processClientOrLeafAuthentication :: "ext \<Rightarrow> Server \<Rightarrow> client \<Rightarrow> Options \<Rightarrow> outcome" where
  "processClientOrLeafAuthentication x s c opt =
     (case getAuthOpts s c opt zero_authOpts of
        (False, auth) \<Rightarrow> (True, c, [])
      | (True, auth) \<Rightarrow>
          (case trusted_keys_check x s c of
             Return b \<Rightarrow> (b, c, [])
           | Continue juc \<Rightarrow>
               (case lookup_candidates s c auth of
                  Return (b, c') \<Rightarrow> (b, c', [])
                | Continue (nk, usr, c') \<Rightarrow> after_unlock x s c' opt auth juc nk usr)))"

section \<open>Dispatch on the kind of connection\<close>

definition isClientAuthorized :: "ext \<Rightarrow> Server \<Rightarrow> client \<Rightarrow> outcome" where
  "isClientAuthorized x s c =
     (let opt = getOpts s
      in case CustomClientAuthentication opt of
           Some custom \<Rightarrow> (custom c, c, [])
         | None \<Rightarrow> processClientOrLeafAuthentication x s c opt)"

definition isRouterAuthorized :: "ext \<Rightarrow> Server \<Rightarrow> client \<Rightarrow> outcome" where
  "isRouterAuthorized x s c =
     (let opt = getOpts s
      in case CustomRouterAuthentication (Server.opts s) of
           Some custom \<Rightarrow> (custom c, c, [])
         | None \<Rightarrow>
             if ClusterOpts.Username (Cluster opt) = [] then (True, c, [])
             else if ClusterOpts.TLSMap (Cluster opt) then
               (fst (checkClientTLSCertSubject c
                       (\<lambda>u (\<sigma>::unit). (ClusterOpts.Username (Cluster opt) = u, \<sigma>)) ()), c, [])
             else if ClusterOpts.Username (Cluster opt) \<noteq> clientOpts.Username (client.opts c)
               then (False, c, [])
             else if \<not> comparePasswords (CompareHashAndPassword x)
                        (ClusterOpts.Password (Cluster opt)) (clientOpts.Password (client.opts c))
               then (False, c, [])
             else (True, c, []))"

definition isGatewayAuthorized :: "ext \<Rightarrow> Server \<Rightarrow> client \<Rightarrow> outcome" where
  "isGatewayAuthorized x s c =
     (let opt = getOpts s
      in if GatewayOpts.Username (Gateway opt) = [] then (True, c, [])
         else if GatewayOpts.TLSMap (Gateway opt) then
           (fst (checkClientTLSCertSubject c
                   (\<lambda>u (\<sigma>::unit). (GatewayOpts.Username (Gateway opt) = u, \<sigma>)) ()), c, [])
         else if GatewayOpts.Username (Gateway opt) \<noteq> clientOpts.Username (client.opts c)
           then (False, c, [])
         else (comparePasswords (CompareHashAndPassword x)
                 (GatewayOpts.Password (Gateway opt)) (clientOpts.Password (client.opts c)), c, []))"

text \<open>The closure \<^verbatim>\<open>isAuthorized\<close> of \<^verbatim>\<open>isLeafNodeAuthorized\<close>.\<close>

definition isAuthorized :: "ext \<Rightarrow> Server \<Rightarrow> client \<Rightarrow> string \<Rightarrow> string \<Rightarrow> string \<Rightarrow> outcome" where
  "isAuthorized x s c uname pwd account =
     (if uname \<noteq> clientOpts.Username (client.opts c) then (False, c, [])
      else if \<not> comparePasswords (CompareHashAndPassword x) pwd (clientOpts.Password (client.opts c))
        then (False, c, [])
      else registerLeafWithAccount x s c account)"

text \<open>
  The loop over \<^verbatim>\<open>opts.LeafNode.Users\<close>: the first user whose name is the CONNECT
  user name decides; without one the answer is \<^verbatim>\<open>false\<close>.
\<close>

fun leaf_users_scan :: "ext \<Rightarrow> Server \<Rightarrow> client \<Rightarrow> User list \<Rightarrow> outcome" where
  "leaf_users_scan x s c [] = (False, c, [])"
| "leaf_users_scan x s c (u # us) =
     (if User.Username u = clientOpts.Username (client.opts c) then
        (let accName = (case User.Account u of None \<Rightarrow> [] | Some a \<Rightarrow> Account.Name a)
         in isAuthorized x s c (User.Username u) (User.Password u) accName)
      else leaf_users_scan x s c us)"

definition isLeafNodeAuthorized :: "ext \<Rightarrow> Server \<Rightarrow> client \<Rightarrow> outcome" where
  "isLeafNodeAuthorized x s c =
     (let opt = getOpts s
      in if LeafNodeOpts.Username (LeafNode opt) \<noteq> [] then
           isAuthorized x s c (LeafNodeOpts.Username (LeafNode opt))
             (LeafNodeOpts.Password (LeafNode opt)) (LeafNodeOpts.Account (LeafNode opt))
         else if length (LeafNodeOpts.Users (LeafNode opt)) > 0 then
           leaf_users_scan x s c (LeafNodeOpts.Users (LeafNode opt))
         else processClientOrLeafAuthentication x s c opt)"

definition checkAuthentication :: "ext \<Rightarrow> Server \<Rightarrow> client \<Rightarrow> outcome" where
  "checkAuthentication x s c =
     (case kind c of
        CLIENT \<Rightarrow> isClientAuthorized x s c
      | ROUTER \<Rightarrow> isRouterAuthorized x s c
      | GATEWAY \<Rightarrow> isGatewayAuthorized x s c
      | LEAF \<Rightarrow> isLeafNodeAuthorized x s c
      | OTHER n \<Rightarrow> (False, c, []))"

section \<open>Example configurations\<close>

text \<open>
  Concrete values on which the properties below are evaluated: external operations,
  accounts, users, certificates, servers and connections.
\<close>

definition example_defaults :: Defaults where
  "example_defaults =
     \<lparr> DEFAULT_ALLOW_RESPONSE_MAX_MSGS = 1, DEFAULT_ALLOW_RESPONSE_EXPIRATION = 2000000000 \<rparr>"

definition global_account :: Account where
  "global_account = \<lparr> Account.Name = ''$G'', Account.Issuer = [], claimJWT = [], defaultPerms = None \<rparr>"

definition operator_account :: Account where
  "operator_account =
     \<lparr> Account.Name = ''ACME'', Account.Issuer = ''OP'', claimJWT = ''acme.jwt'', defaultPerms = None \<rparr>"

definition expired_account :: Account where
  "expired_account =
     \<lparr> Account.Name = ''OLD'', Account.Issuer = ''OP'', claimJWT = ''old.jwt'', defaultPerms = None \<rparr>"

definition bearer_claims :: UserClaims where
  "bearer_claims =
     \<lparr> UserClaims.Issuer = ''ACME'', IssuerAccount = [], UserClaims.Subject = ''UKEY'',
       BearerToken = True \<rparr>"

definition expired_claims :: UserClaims where
  "expired_claims =
     \<lparr> UserClaims.Issuer = ''OLD'', IssuerAccount = [], UserClaims.Subject = ''UKEY'',
       BearerToken = True \<rparr>"

definition guest :: User where
  "guest = \<lparr> User.Username = ''guest'', User.Password = ''secret'', User.Permissions = None,
             User.Account = None \<rparr>"

definition alice :: User where
  "alice = \<lparr> User.Username = ''alice'', User.Password = ''s3cret'',
             User.Permissions = Some \<lparr> Publish = None, Subscribe = None,
                                       Response = Some \<lparr> MaxMsgs = 0, Expires = 5 \<rparr> \<rparr>,
             User.Account = Some \<lparr> Account.Name = ''ACME'', Account.Issuer = [], claimJWT = [],
                                   defaultPerms = None \<rparr> \<rparr>"

definition example_nkey_user :: NkeyUser where
  "example_nkey_user =
     \<lparr> NkeyUser.Nkey = ''UKEY'', NkeyUser.Permissions = None, NkeyUser.Account = None,
       SigningKey = [] \<rparr>"

definition example_ext :: ext where
  "example_ext =
     \<lparr> CompareHashAndPassword = (\<lambda>h p. False),
       DecodeUserClaims = (\<lambda>j. if j = ''bearer.jwt'' then Some bearer_claims
                                else if j = ''expired.jwt'' then Some expired_claims else None),
       IsBlocking = (\<lambda>juc. False),
       LookupAccount = (\<lambda>s n. accounts s n),
       lookupAccount = (\<lambda>s n. accounts s n),
       isTrustedIssuer = (\<lambda>s k. k \<in> set (elems (trustedKeys s))),
       hasIssuer = (\<lambda>a k. False),
       IsExpired = (\<lambda>a. Account.Name a = ''OLD''),
       checkUserRevoked = (\<lambda>a k. False),
       RawURLEncoding_DecodeString = (\<lambda>t. None),
       StdEncoding_DecodeString = (\<lambda>t. None),
       FromPublicKey = (\<lambda>k. None),
       Verify = (\<lambda>k n g. False),
       buildInternalNkeyUser = (\<lambda>juc acc. \<lparr> NkeyUser.Nkey = UserClaims.Subject juc,
                                               NkeyUser.Permissions = None,
                                               NkeyUser.Account = Some acc, SigningKey = [] \<rparr>),
       verifyAccountClaims = (\<lambda>s j. None),
       AccountClaims_String = (\<lambda>cl. body cl),
       buildInternalAccount = (\<lambda>s cl. \<lparr> Account.Name = AccountClaims.Name cl, Account.Issuer = [],
                                           claimJWT = [], defaultPerms = None \<rparr>),
       RegisterNkeyUser = (\<lambda>c n. True),
       registerWithAccount = (\<lambda>c a. a \<noteq> None),
       registerAccount = (\<lambda>s a. None),
       updateAccountWithClaimJWT = (\<lambda>s a j. NoError) \<rparr>"

definition example_options :: Options where
  "example_options =
     \<lparr> Options.Username = [], Options.Password = [], Authorization = [],
       Options.NoAuthUser = ''guest'', Options.TLSMap = False,
       Options.Users = Some [guest], Nkeys = None, TrustedOperators = [],
       SystemAccount = [], CustomClientAuthentication = None, CustomRouterAuthentication = None,
       Cluster = \<lparr> ClusterOpts.Username = [], ClusterOpts.Password = [], ClusterOpts.TLSMap = False \<rparr>,
       Gateway = \<lparr> GatewayOpts.Username = [], GatewayOpts.Password = [], GatewayOpts.TLSMap = False \<rparr>,
       LeafNode = \<lparr> LeafNodeOpts.Username = [], LeafNodeOpts.Password = [],
                    LeafNodeOpts.Account = [], LeafNodeOpts.Users = [] \<rparr>,
       Websocket = \<lparr> WebsocketOpts.Username = [], WebsocketOpts.Password = [],
                     WebsocketOpts.Token = [], WebsocketOpts.NoAuthUser = [],
                     WebsocketOpts.TLSMap = False \<rparr> \<rparr>"

text \<open>
  A server without trusted keys, with the table of users that
  \<^verbatim>\<open>buildNkeysAndUsersFromOptions\<close> builds from the options.
\<close>

definition users_server :: Server where
  "users_server =
     \<lparr> info = \<lparr> AuthRequired = True \<rparr>,
       websocket = \<lparr> srvWebsocket.authRequired = False, srvWebsocket.users = None,
                     srvWebsocket.nkeys = None \<rparr>,
       Server.users = Some [''guest'' \<mapsto> guest \<lparr> User.Account := Some global_account \<rparr>],
       Server.nkeys = None,
       trustedKeys = None,
       Server.opts = example_options,
       accounts = [''$G'' \<mapsto> global_account, ''ACME'' \<mapsto> operator_account,
                   ''OLD'' \<mapsto> expired_account],
       gacc = Some global_account \<rparr>"

text \<open>A server in operator mode: trusted keys and no users.\<close>

definition operator_server :: Server where
  "operator_server =
     users_server \<lparr> Server.users := None, trustedKeys := Some [''OP''],
                    Server.opts := example_options \<lparr> Options.NoAuthUser := [], Options.Users := None,
                                                   TrustedOperators := [''op.jwt''] \<rparr> \<rparr>"

definition example_client :: client where
  "example_client =
     \<lparr> kind = CLIENT,
       client.opts = \<lparr> clientOpts.Username = [], clientOpts.Password = [], clientOpts.Token = [],
                       JWT = [], clientOpts.Nkey = [], Sig = [] \<rparr>,
       ws = False, nonce = ''nonce'', tlsState = None, pubKey = [] \<rparr>"

text \<open>A certificate whose only identity is a DNS name.\<close>

definition san_only_cert :: Certificate where
  "san_only_cert =
     \<lparr> DNSNames = [''host.example''], EmailAddresses = [], URIs = [], Subject_String = [],
       Subject_ToRDNSequence_String = [], RawSubject = None \<rparr>"

text \<open>A certificate with an email address, a DNS name, a URI and a subject.\<close>

definition full_cert :: Certificate where
  "full_cert =
     \<lparr> DNSNames = [''host.example''], EmailAddresses = [''ops@host.example''],
       URIs = [''spiffe://host.example/ops''], Subject_String = ''CN=host.example,0.9.2342.19200300.100.1.25=example'',
       Subject_ToRDNSequence_String = ''CN=host.example'',
       RawSubject = Some [[\<lparr> Type = [2, 5, 4, 3], Value = Some ''host.example'' \<rparr>],
                          [\<lparr> Type = [0, 9, 2342, 19200300, 100, 1, 25], Value = Some ''example'' \<rparr>]] \<rparr>"

definition example_leaf :: client where
  "example_leaf = example_client \<lparr> kind := LEAF \<rparr>"

definition client_with_cert :: "Certificate \<Rightarrow> client" where
  "client_with_cert cert =
     example_client \<lparr> tlsState := Some \<lparr> PeerCertificates = [cert] \<rparr> \<rparr>"

text \<open>
  A predicate that answers as \<open>p\<close> does and records the candidates it is called with,
  in order.
\<close>

definition recording :: "(string \<Rightarrow> bool) \<Rightarrow> string \<Rightarrow> string list \<Rightarrow> bool \<times> string list" where
  "recording p u tested = (p u, tested @ [u])"

definition is_empty_name :: "string \<Rightarrow> bool" where
  "is_empty_name u = (u = [])"

definition no_name :: "string \<Rightarrow> bool" where
  "no_name u = False"


section \<open>Properties\<close>

subsection \<open>Password primitives\<close>

text \<open>
  The strings \<^verbatim>\<open>isBcrypt\<close> accepts: the third character is one of the five
  characters of the bracket expression \<^verbatim>\<open>[a,b,x,y]\<close>, the comma among them.
\<close>

lemma isBcrypt_iff:
  "isBcrypt s \<longleftrightarrow>
     (\<exists>v d1 d2 rest. s = CHR ''$'' # CHR ''2'' # v # CHR ''$'' # d1 # d2 # CHR ''$'' # rest \<and>
        v \<in> {CHR ''a'', CHR ''b'', CHR ''x'', CHR ''y'', CHR '',''} \<and>
        d1 \<in> set ''0123456789'' \<and> d2 \<in> set ''0123456789'')"
proof -
  show ?thesis
  proof (cases s)
    case Nil
    then show ?thesis by (simp add: isBcrypt_def HasPrefix_def)
  next
    case (Cons c0 s0)
    note s = this
    show ?thesis
    proof (cases s0)
      case Nil
      with s show ?thesis by (simp add: isBcrypt_def HasPrefix_def validBcryptPrefix_def)
    next
      case (Cons c1 s1)
      note s0 = this
      show ?thesis
      proof (cases s1)
        case Nil
        with s s0 show ?thesis by (simp add: isBcrypt_def HasPrefix_def validBcryptPrefix_def)
      next
        case (Cons c2 s2)
        note s1 = this
        show ?thesis
        proof (cases s2)
          case Nil
          with s s0 s1 show ?thesis by (simp add: isBcrypt_def HasPrefix_def validBcryptPrefix_def)
        next
          case (Cons c3 s3)
          note s2 = this
          show ?thesis
          proof (cases s3)
            case Nil
            with s s0 s1 s2 show ?thesis
              by (simp add: isBcrypt_def HasPrefix_def validBcryptPrefix_def)
          next
            case (Cons c4 s4)
            note s3 = this
            show ?thesis
            proof (cases s4)
              case Nil
              with s s0 s1 s2 s3 show ?thesis
                by (simp add: isBcrypt_def HasPrefix_def validBcryptPrefix_def)
            next
              case (Cons c5 s5)
              note s4 = this
              show ?thesis
              proof (cases s5)
                case Nil
                with s s0 s1 s2 s3 s4 show ?thesis
                  by (simp add: isBcrypt_def HasPrefix_def validBcryptPrefix_def)
              next
                case (Cons c6 s6)
                with s s0 s1 s2 s3 s4 show ?thesis
                  by (auto simp add: isBcrypt_def HasPrefix_def validBcryptPrefix_def)
              qed
            qed
          qed
        qed
      qed
    qed
  qed
qed

text \<open>
  C2. The claim: \<^verbatim>\<open>isBcrypt s\<close> holds exactly when \<open>s\<close> starts with \<^verbatim>\<open>$2\<close>, one of
  \<^verbatim>\<open>a\<close>, \<^verbatim>\<open>b\<close>, \<^verbatim>\<open>x\<close>, \<^verbatim>\<open>y\<close>, \<^verbatim>\<open>$\<close>, two digits and \<^verbatim>\<open>$\<close>. The bracket expression
  of the compiled pattern lists the separating commas as well, so a string with a
  comma in the version position is accepted: here \<^verbatim>\<open>$2,$10$abc\<close>, which does not match
  the pattern the claim gives.
\<close>

theorem isBcrypt_accepts_comma_version:
  "isBcrypt ''$2,$10$abc'' \<and> CHR '','' \<notin> {CHR ''a'', CHR ''b'', CHR ''x'', CHR ''y''}"
  by (simp add: isBcrypt_def HasPrefix_def validBcryptPrefix_def)


lemmas examples =
  example_defaults_def global_account_def operator_account_def expired_account_def
  bearer_claims_def expired_claims_def guest_def alice_def example_nkey_user_def example_ext_def
  example_options_def users_server_def operator_server_def example_client_def example_leaf_def
  san_only_cert_def full_cert_def client_with_cert_def recording_def is_empty_name_def no_name_def


lemmas extractor =
  checkClientTLSCertSubject_def switch_candidates_def rdn_then_subject_def getTLSAuthDCs_def
  dcOID_def

subsection \<open>Permission model\<close>

text \<open>
  C8. \<^verbatim>\<open>validateResponsePermissions\<close> is idempotent. After one application, when the
  response permission is set, the publish permission is set and its allow list is not
  \<^verbatim>\<open>nil\<close>, and the response permission is the one given with a zero \<^verbatim>\<open>MaxMsgs\<close> and a
  zero \<^verbatim>\<open>Expires\<close> replaced by the defaults.
\<close>

theorem validateResponsePermissions_idempotent:
  "validateResponsePermissions d (validateResponsePermissions d p) = validateResponsePermissions d p \<and>
   (\<forall>q r. validateResponsePermissions d p = Some q \<and> Response q = Some r \<longrightarrow>
      (\<exists>sp al. Publish q = Some sp \<and> Allow sp = Some al)) \<and>
   (\<forall>p0 r0. p = Some p0 \<and> Response p0 = Some r0 \<longrightarrow>
      (\<exists>q. validateResponsePermissions d p = Some q \<and>
           Response q =
             Some \<lparr> MaxMsgs = (if MaxMsgs r0 = 0 then DEFAULT_ALLOW_RESPONSE_MAX_MSGS d
                                else MaxMsgs r0),
                    Expires = (if Expires r0 = 0 then DEFAULT_ALLOW_RESPONSE_EXPIRATION d
                               else Expires r0) \<rparr>))"
  by (auto simp add: validateResponsePermissions_def Let_def split: option.splits)

theorem validateResponsePermissions_idempotent_witness:
  "validateResponsePermissions example_defaults (User.Permissions alice) =
     Some \<lparr> Publish = Some \<lparr> Allow = Some [], Deny = None \<rparr>, Subscribe = None,
            Response = Some \<lparr> MaxMsgs = 1, Expires = 5 \<rparr> \<rparr> \<and>
   validateResponsePermissions example_defaults
     (validateResponsePermissions example_defaults (User.Permissions alice)) =
     validateResponsePermissions example_defaults (User.Permissions alice)"
  using validateResponsePermissions_idempotent [of example_defaults "User.Permissions alice"]
  by (simp add: validateResponsePermissions_def examples)

subsection \<open>Building the user and nkey tables\<close>

lemma fold_upd_lookup:
  "(fold (\<lambda>u m. m(key u \<mapsto> val u)) xs m0) k = Some n \<Longrightarrow>
     m0 k = Some n \<or> (\<exists>u \<in> set xs. key u = k \<and> n = val u)"
proof (induction xs arbitrary: m0)
  case Nil
  then show ?case by simp
next
  case (Cons x xs)
  from Cons.IH [of "m0(key x \<mapsto> val x)"] Cons.prems show ?case
    by (auto split: if_splits)
qed

lemma build_nkey_Account:
  "NkeyUser.Account (build_nkey d s u) =
     (case NkeyUser.Account u of
        None \<Rightarrow> None
      | Some a \<Rightarrow> (case accounts s (Account.Name a) of Some v \<Rightarrow> Some v | None \<Rightarrow> Some a))"
  by (simp add: build_nkey_def clone_NkeyUser_def Let_def split: option.splits)

lemma build_user_Account:
  "User.Account (build_user d s u) =
     (case User.Account u of
        None \<Rightarrow> None
      | Some a \<Rightarrow> (case accounts s (Account.Name a) of Some v \<Rightarrow> Some v | None \<Rightarrow> Some a))"
  by (simp add: build_user_def clone_User_def Let_def split: option.splits)

lemma index_nkeys_built:
  "index (fst (buildNkeysAndUsersFromOptions d s nko uo)) k = Some n \<Longrightarrow>
     \<exists>n0. fold (\<lambda>u m. m(NkeyUser.Nkey u \<mapsto> build_nkey d s u)) (elems nko) Map.empty k = Some n0 \<and>
          n = (if NkeyUser.Account n0 = None then n0 \<lparr> NkeyUser.Account := gacc s \<rparr> else n0)"
  by (auto simp add: buildNkeysAndUsersFromOptions_def assignGlobalAccountToOrphanUsers_def
      index_def Let_def split: if_splits)

lemma index_users_built:
  "index (snd (buildNkeysAndUsersFromOptions d s nko uo)) k = Some n \<Longrightarrow>
     \<exists>n0. fold (\<lambda>u m. m(User.Username u \<mapsto> build_user d s u)) (elems uo) Map.empty k = Some n0 \<and>
          n = (if User.Account n0 = None then n0 \<lparr> User.Account := gacc s \<rparr> else n0)"
  by (auto simp add: buildNkeysAndUsersFromOptions_def assignGlobalAccountToOrphanUsers_def
      index_def Let_def split: if_splits)

text \<open>
  C7. On a server whose global account exists, every entry of the two tables built
  from any configured sequences has an account. The entry comes from a configured
  entry with its key; its account is the registry's account of the declared name when
  there is one, the declared account when the registry has none of that name, and the
  global account when the configured entry declares none.
\<close>

theorem build_tables_accounts:
  assumes g: "gacc s = Some g"
  shows "(\<forall>k n. index (fst (buildNkeysAndUsersFromOptions d s nko uo)) k = Some n \<longrightarrow>
            NkeyUser.Account n \<noteq> None \<and>
            (\<exists>u \<in> set (elems nko). NkeyUser.Nkey u = k \<and>
               NkeyUser.Account n =
                 (case NkeyUser.Account u of
                    None \<Rightarrow> Some g
                  | Some a \<Rightarrow> (case accounts s (Account.Name a) of
                                Some v \<Rightarrow> Some v
                              | None \<Rightarrow> Some a)))) \<and>
         (\<forall>k n. index (snd (buildNkeysAndUsersFromOptions d s nko uo)) k = Some n \<longrightarrow>
            User.Account n \<noteq> None \<and>
            (\<exists>u \<in> set (elems uo). User.Username u = k \<and>
               User.Account n =
                 (case User.Account u of
                    None \<Rightarrow> Some g
                  | Some a \<Rightarrow> (case accounts s (Account.Name a) of
                                Some v \<Rightarrow> Some v
                              | None \<Rightarrow> Some a))))"
proof (intro conjI allI impI)
  fix k n
  assume "index (fst (buildNkeysAndUsersFromOptions d s nko uo)) k = Some n"
  from index_nkeys_built [OF this] obtain n0 where
    n0: "fold (\<lambda>u m. m(NkeyUser.Nkey u \<mapsto> build_nkey d s u)) (elems nko) Map.empty k = Some n0"
    and n: "n = (if NkeyUser.Account n0 = None then n0 \<lparr> NkeyUser.Account := gacc s \<rparr> else n0)"
    by blast
  from fold_upd_lookup [OF n0] obtain u where u: "u \<in> set (elems nko)" "NkeyUser.Nkey u = k"
    "n0 = build_nkey d s u" by auto
  show "NkeyUser.Account n \<noteq> None" using n g by auto
  show "\<exists>u \<in> set (elems nko). NkeyUser.Nkey u = k \<and>
               NkeyUser.Account n =
                 (case NkeyUser.Account u of
                    None \<Rightarrow> Some g
                  | Some a \<Rightarrow> (case accounts s (Account.Name a) of
                                Some v \<Rightarrow> Some v
                              | None \<Rightarrow> Some a))"
    using u n g by (intro bexI [of _ u]) (auto simp add: build_nkey_Account split: option.splits)
next
  fix k n
  assume "index (snd (buildNkeysAndUsersFromOptions d s nko uo)) k = Some n"
  from index_users_built [OF this] obtain n0 where
    n0: "fold (\<lambda>u m. m(User.Username u \<mapsto> build_user d s u)) (elems uo) Map.empty k = Some n0"
    and n: "n = (if User.Account n0 = None then n0 \<lparr> User.Account := gacc s \<rparr> else n0)"
    by blast
  from fold_upd_lookup [OF n0] obtain u where u: "u \<in> set (elems uo)" "User.Username u = k"
    "n0 = build_user d s u" by auto
  show "User.Account n \<noteq> None" using n g by auto
  show "\<exists>u \<in> set (elems uo). User.Username u = k \<and>
               User.Account n =
                 (case User.Account u of
                    None \<Rightarrow> Some g
                  | Some a \<Rightarrow> (case accounts s (Account.Name a) of
                                Some v \<Rightarrow> Some v
                              | None \<Rightarrow> Some a))"
    using u n g by (intro bexI [of _ u]) (auto simp add: build_user_Account split: option.splits)
qed

lemmas tables =
  buildNkeysAndUsersFromOptions_def assignGlobalAccountToOrphanUsers_def build_user_def
  build_nkey_def clone_User_def clone_NkeyUser_def clone_Permissions_def
  clone_SubjectPermission_def copy_slice_def validateResponsePermissions_def elems_def index_def
  Let_def

lemma example_table_guest:
  "index (snd (buildNkeysAndUsersFromOptions example_defaults users_server
                 (Some [example_nkey_user]) (Some [guest, alice]))) ''guest'' =
     Some (guest \<lparr> User.Account := Some global_account \<rparr>)"
  by (simp add: tables examples)

lemma example_table_alice:
  "index (snd (buildNkeysAndUsersFromOptions example_defaults users_server
                 (Some [example_nkey_user]) (Some [guest, alice]))) ''alice'' =
     Some (alice \<lparr> User.Account := Some operator_account,
                    User.Permissions :=
                      validateResponsePermissions example_defaults (User.Permissions alice) \<rparr>)"
  by (simp add: tables examples)

lemma example_table_nkey:
  "index (fst (buildNkeysAndUsersFromOptions example_defaults users_server
                 (Some [example_nkey_user]) (Some [guest, alice]))) ''UKEY'' =
     Some (example_nkey_user \<lparr> NkeyUser.Account := Some global_account \<rparr>)"
  by (simp add: tables examples)

theorem build_tables_accounts_witness:
  "gacc users_server = Some global_account \<and>
   (\<exists>n. index (snd (buildNkeysAndUsersFromOptions example_defaults users_server
                      (Some [example_nkey_user]) (Some [guest, alice]))) ''guest'' = Some n \<and>
        User.Account n \<noteq> None \<and> User.Account n = Some global_account) \<and>
   (\<exists>n. index (snd (buildNkeysAndUsersFromOptions example_defaults users_server
                      (Some [example_nkey_user]) (Some [guest, alice]))) ''alice'' = Some n \<and>
        User.Account n \<noteq> None \<and> User.Account n = Some operator_account) \<and>
   (\<exists>n. index (fst (buildNkeysAndUsersFromOptions example_defaults users_server
                      (Some [example_nkey_user]) (Some [guest, alice]))) ''UKEY'' = Some n \<and>
        NkeyUser.Account n \<noteq> None \<and> NkeyUser.Account n = Some global_account)"
proof -
  let ?t = "buildNkeysAndUsersFromOptions example_defaults users_server
              (Some [example_nkey_user]) (Some [guest, alice])"
  have g: "gacc users_server = Some global_account" by (simp add: examples)
  note t = build_tables_accounts [OF g, of example_defaults "Some [example_nkey_user]"
      "Some [guest, alice]"]
  from t have nk: "\<And>k n. index (fst ?t) k = Some n \<Longrightarrow> NkeyUser.Account n \<noteq> None" by blast
  from t have us: "\<And>k n. index (snd ?t) k = Some n \<Longrightarrow> User.Account n \<noteq> None" by blast
  have "User.Account (guest \<lparr> User.Account := Some global_account \<rparr>) \<noteq> None"
    by (rule us [OF example_table_guest])
  moreover have "User.Account (alice \<lparr> User.Account := Some operator_account,
                    User.Permissions :=
                      validateResponsePermissions example_defaults (User.Permissions alice) \<rparr>) \<noteq> None"
    by (rule us [OF example_table_alice])
  moreover have "NkeyUser.Account (example_nkey_user \<lparr> NkeyUser.Account := Some global_account \<rparr>) \<noteq> None"
    by (rule nk [OF example_table_nkey])
  ultimately show ?thesis
    using g example_table_guest example_table_alice example_table_nkey by simp
qed

subsection \<open>Configuration validator\<close>

lemma findNoAuthUser_iff:
  "findNoAuthUser n us \<longleftrightarrow> (\<exists>u \<in> set us. User.Username u = n)"
  by (induction us) auto

text \<open>
  C9. \<^verbatim>\<open>validateAuth\<close> returns an error exactly when \<^verbatim>\<open>NoAuthUser\<close> is not empty and
  a trusted operator is configured, or the users list is \<^verbatim>\<open>nil\<close>, or no user of the
  list has that name; with an empty \<^verbatim>\<open>NoAuthUser\<close> it returns \<^verbatim>\<open>nil\<close>.
\<close>

theorem validateAuth_error_iff:
  "(validateAuth opt \<noteq> None \<longleftrightarrow>
      Options.NoAuthUser opt \<noteq> [] \<and>
      (TrustedOperators opt \<noteq> [] \<or> Options.Users opt = None \<or>
       \<not> (\<exists>u \<in> set (elems (Options.Users opt)). User.Username u = Options.NoAuthUser opt))) \<and>
   (Options.NoAuthUser opt = [] \<longrightarrow> validateAuth opt = None)"
  by (auto simp add: validateAuth_def findNoAuthUser_iff)

theorem validateAuth_error_iff_witness:
  "validateAuth example_options = None \<and>
   validateAuth (example_options \<lparr> Options.NoAuthUser := ''bob'' \<rparr>) = Some (NoAuthUserNotPresent ''bob'') \<and>
   validateAuth (example_options \<lparr> Options.Users := None \<rparr>) = Some (NoAuthUserButUsersNotDefined ''guest'') \<and>
   validateAuth (example_options \<lparr> TrustedOperators := [''op.jwt''] \<rparr>) = Some NoAuthUserWithTrustedOperator \<and>
   validateAuth (example_options \<lparr> Options.NoAuthUser := [], Options.Users := None \<rparr>) = None"
proof -
  have 1: "validateAuth example_options = None"
    using validateAuth_error_iff [of example_options]
    by (simp add: elems_def examples)
  have 2: "validateAuth (example_options \<lparr> Options.NoAuthUser := ''bob'' \<rparr>) \<noteq> None"
    using validateAuth_error_iff [of "example_options \<lparr> Options.NoAuthUser := ''bob'' \<rparr>"]
    by (simp add: elems_def examples)
  have 3: "validateAuth (example_options \<lparr> Options.Users := None \<rparr>) \<noteq> None"
    using validateAuth_error_iff [of "example_options \<lparr> Options.Users := None \<rparr>"]
    by (simp add: elems_def examples)
  have 4: "validateAuth (example_options \<lparr> TrustedOperators := [''op.jwt''] \<rparr>) \<noteq> None"
    using validateAuth_error_iff [of "example_options \<lparr> TrustedOperators := [''op.jwt''] \<rparr>"]
    by (simp add: elems_def examples)
  have 5: "validateAuth (example_options \<lparr> Options.NoAuthUser := [], Options.Users := None \<rparr>) = None"
    using validateAuth_error_iff [of "example_options \<lparr> Options.NoAuthUser := [], Options.Users := None \<rparr>"]
    by simp
  from 1 2 3 4 5 show ?thesis
    by (simp add: validateAuth_def elems_def examples)
qed

subsection \<open>Dispatch on the kind of connection\<close>

text \<open>
  C10. For a connection whose kind is none of \<^verbatim>\<open>CLIENT\<close>, \<^verbatim>\<open>ROUTER\<close>, \<^verbatim>\<open>GATEWAY\<close> and
  \<^verbatim>\<open>LEAF\<close>, \<^verbatim>\<open>checkAuthentication\<close> returns \<^verbatim>\<open>false\<close>; the connection is left as it was
  and nothing is called: the result is the same for every server state and every
  behaviour of the external operations.
\<close>

theorem checkAuthentication_other_kind:
  "kind c \<notin> {CLIENT, ROUTER, GATEWAY, LEAF} \<Longrightarrow> checkAuthentication x s c = (False, c, [])"
  by (cases "kind c") (simp_all add: checkAuthentication_def)

theorem checkAuthentication_other_kind_witness:
  "kind (example_client \<lparr> kind := OTHER 3 \<rparr>) \<notin> {CLIENT, ROUTER, GATEWAY, LEAF} \<and>
   checkAuthentication example_ext users_server (example_client \<lparr> kind := OTHER 3 \<rparr>) =
     (False, example_client \<lparr> kind := OTHER 3 \<rparr>, [])"
proof -
  have k: "kind (example_client \<lparr> kind := OTHER 3 \<rparr>) \<notin> {CLIENT, ROUTER, GATEWAY, LEAF}"
    by simp
  from k checkAuthentication_other_kind [OF k, of example_ext users_server]
  show ?thesis by simp
qed

subsection \<open>TLS subject extractor\<close>

text \<open>
  C3. When the first peer certificate has no email address, an empty subject string and
  no URI, \<^verbatim>\<open>checkClientTLSCertSubject\<close> returns \<^verbatim>\<open>false\<close> and the state of the predicate
  is the one it started with, whatever the predicate does when called: it is not
  called. The DNS names of the certificate are not among the hypotheses.
\<close>

theorem no_identity_in_cert:
  assumes "tlsState c = Some st" and "PeerCertificates st = cert # rest"
    and "EmailAddresses cert = []" and "Subject_String cert = []" and "URIs cert = []"
  shows "checkClientTLSCertSubject c fn \<sigma> = (False, \<sigma>)"
  using assms by (simp add: checkClientTLSCertSubject_def)

theorem no_identity_in_cert_witness:
  "DNSNames san_only_cert = [''host.example''] \<and>
   checkClientTLSCertSubject (client_with_cert san_only_cert) (recording no_name) [] = (False, [])"
proof -
  have 1: "tlsState (client_with_cert san_only_cert) = Some \<lparr> PeerCertificates = [san_only_cert] \<rparr>"
    by (simp add: examples)
  have 2: "PeerCertificates \<lparr> PeerCertificates = [san_only_cert] \<rparr> = san_only_cert # []"
    by simp
  have 3: "EmailAddresses san_only_cert = []" "Subject_String san_only_cert = []"
    "URIs san_only_cert = []"
    by (simp_all add: examples)
  from no_identity_in_cert [OF 1 2 3, of "recording no_name" "[]"]
  show ?thesis by (simp add: san_only_cert_def)
qed

lemma range_fn_append:
  "range_fn fn (xs @ ys) \<sigma> =
     (case range_fn fn xs \<sigma> of (True, \<sigma>') \<Rightarrow> (True, \<sigma>') | (False, \<sigma>') \<Rightarrow> range_fn fn ys \<sigma>')"
  by (induction xs arbitrary: \<sigma>) (auto split: prod.splits bool.splits)

text \<open>
  C4, as claimed: whenever the certificate has emails or SANs and none of them
  satisfies the predicate, the extractor goes on to the RDN sequence and the subject
  string. The certificate \<open>san_only_cert\<close> has a SAN, which the predicate
  \<open>is_empty_name\<close> rejects, and an empty subject string, which it accepts: going on to
  the subject string would test the SAN and then the subject and return \<^verbatim>\<open>true\<close>. The
  extractor returns \<^verbatim>\<open>false\<close> and has tested nothing, because the certificate has no
  email, no subject and no URI.
\<close>

theorem san_without_subject_counterexample:
  "DNSNames san_only_cert = [''host.example''] \<and> \<not> is_empty_name ''host.example'' \<and>
   checkClientTLSCertSubject (client_with_cert san_only_cert) (recording is_empty_name) [] =
     (False, []) \<and>
   rdn_then_subject (RawSubject san_only_cert) (Subject_ToRDNSequence_String san_only_cert)
     (Subject_String san_only_cert) (recording is_empty_name) [''host.example''] =
     (True, [''host.example'', []])"
  by (simp add: extractor examples)

text \<open>
  C4, amended. For a certificate that has an email address, a non-empty subject string
  or a URI (any other certificate is rejected before a candidate is tested, C3): when
  the certificate has emails or SANs, the extractor tests the emails, then the SANs,
  and when none of them satisfies the predicate goes on to the RDN sequence and the
  subject string, the URIs playing no part; the URIs are tested, before the RDN
  sequence and the subject string, when the certificate has neither emails nor SANs.
\<close>

theorem uris_only_without_emails_and_sans:
  assumes st: "tlsState c = Some st" and cert: "PeerCertificates st = cert # rest"
    and some: "EmailAddresses cert \<noteq> [] \<or> Subject_String cert \<noteq> [] \<or> URIs cert \<noteq> []"
  shows "(EmailAddresses cert \<noteq> [] \<or> DNSNames cert \<noteq> [] \<longrightarrow>
            checkClientTLSCertSubject c fn \<sigma> =
              (case range_fn fn (EmailAddresses cert @ DNSNames cert) \<sigma> of
                 (True, \<sigma>') \<Rightarrow> (True, \<sigma>')
               | (False, \<sigma>') \<Rightarrow>
                   rdn_then_subject (RawSubject cert) (Subject_ToRDNSequence_String cert)
                     (Subject_String cert) fn \<sigma>')) \<and>
         (EmailAddresses cert = [] \<and> DNSNames cert = [] \<longrightarrow>
            checkClientTLSCertSubject c fn \<sigma> =
              (case range_fn fn (URIs cert) \<sigma> of
                 (True, \<sigma>') \<Rightarrow> (True, \<sigma>')
               | (False, \<sigma>') \<Rightarrow>
                   rdn_then_subject (RawSubject cert) (Subject_ToRDNSequence_String cert)
                     (Subject_String cert) fn \<sigma>'))"
proof (intro conjI impI)
  assume "EmailAddresses cert \<noteq> [] \<or> DNSNames cert \<noteq> []"
  then show "checkClientTLSCertSubject c fn \<sigma> =
              (case range_fn fn (EmailAddresses cert @ DNSNames cert) \<sigma> of
                 (True, \<sigma>') \<Rightarrow> (True, \<sigma>')
               | (False, \<sigma>') \<Rightarrow>
                   rdn_then_subject (RawSubject cert) (Subject_ToRDNSequence_String cert)
                     (Subject_String cert) fn \<sigma>')"
    using st cert some
    by (cases "EmailAddresses cert = []")
       (auto simp add: checkClientTLSCertSubject_def switch_candidates_def range_fn_append
          split: prod.splits bool.splits)
next
  assume "EmailAddresses cert = [] \<and> DNSNames cert = []"
  then show "checkClientTLSCertSubject c fn \<sigma> =
              (case range_fn fn (URIs cert) \<sigma> of
                 (True, \<sigma>') \<Rightarrow> (True, \<sigma>')
               | (False, \<sigma>') \<Rightarrow>
                   rdn_then_subject (RawSubject cert) (Subject_ToRDNSequence_String cert)
                     (Subject_String cert) fn \<sigma>')"
    using st cert some
    by (auto simp add: checkClientTLSCertSubject_def switch_candidates_def
          split: prod.splits bool.splits)
qed

theorem uris_only_without_emails_and_sans_witness:
  "checkClientTLSCertSubject (client_with_cert full_cert) (recording no_name) [] =
     (False, [''ops@host.example'', ''host.example'', ''CN=host.example,DC=example'',
              ''CN=host.example,0.9.2342.19200300.100.1.25=example'']) \<and>
   checkClientTLSCertSubject
     (client_with_cert (full_cert \<lparr> EmailAddresses := [], DNSNames := [] \<rparr>)) (recording no_name) [] =
     (False, [''spiffe://host.example/ops'', ''CN=host.example,DC=example'',
              ''CN=host.example,0.9.2342.19200300.100.1.25=example''])"
proof -
  have 1: "tlsState (client_with_cert full_cert) = Some \<lparr> PeerCertificates = [full_cert] \<rparr>"
    by (simp add: examples)
  have 2: "PeerCertificates \<lparr> PeerCertificates = [full_cert] \<rparr> = full_cert # []"
    by simp
  have 3: "EmailAddresses full_cert \<noteq> [] \<or> Subject_String full_cert \<noteq> [] \<or> URIs full_cert \<noteq> []"
    by (simp add: examples)
  let ?u = "full_cert \<lparr> EmailAddresses := [], DNSNames := [] \<rparr>"
  have 4: "tlsState (client_with_cert ?u) = Some \<lparr> PeerCertificates = [?u] \<rparr>"
    by (simp add: examples)
  have 5: "PeerCertificates \<lparr> PeerCertificates = [?u] \<rparr> = ?u # []"
    by simp
  have 6: "EmailAddresses ?u \<noteq> [] \<or> Subject_String ?u \<noteq> [] \<or> URIs ?u \<noteq> []"
    by (simp add: examples)
  from uris_only_without_emails_and_sans [OF 1 2 3, of "recording no_name" "[]"]
    uris_only_without_emails_and_sans [OF 4 5 6, of "recording no_name" "[]"]
  show ?thesis
    by (simp add: rdn_then_subject_def getTLSAuthDCs_def dcOID_def full_cert_def recording_def
        no_name_def)
qed

subsection \<open>Authentication of clients and leaf nodes\<close>







text \<open>The two parts that can return under the lock only ever return \<^verbatim>\<open>false\<close>.\<close>

lemma lookup_candidates_Return:
  "lookup_candidates s c auth = Return (b, c') \<Longrightarrow> \<not> b"
  by (auto simp add: lookup_candidates_def Let_def split: option.splits if_splits prod.splits)


text \<open>
  When the list of trusted keys is not empty, \<^verbatim>\<open>configureAuthorization\<close> leaves a
  server on which authentication is required, provided \<^verbatim>\<open>wsConfigAuth\<close> writes neither
  \<^verbatim>\<open>s.info\<close> nor \<^verbatim>\<open>s.trustedKeys\<close>.
\<close>

lemma configureAuthorization_trusted_keys:
  assumes "\<And>s wo. info (wsConfigAuth s wo) = info s"
    and "\<And>s wo. trustedKeys (wsConfigAuth s wo) = trustedKeys s"
    and "elems (trustedKeys s) \<noteq> []"
  shows "AuthRequired (info (configureAuthorization wsConfigAuth d s)) \<and>
         trustedKeys (configureAuthorization wsConfigAuth d s) = trustedKeys s"
  using assms by (simp add: configureAuthorization_def Let_def split: prod.splits)

text \<open>The example server is one that \<^verbatim>\<open>configureAuthorization\<close> leaves.\<close>

lemma users_server_configured:
  "configureAuthorization (\<lambda>s wo. s) example_defaults
     (users_server \<lparr> info := \<lparr> AuthRequired = False \<rparr>, Server.users := None \<rparr>) = users_server"
  by (simp add: configureAuthorization_def getOpts_def tables examples fun_eq_iff)

text \<open>
  C1. The check of the trusted keys is the second step of the ladder: it is reached
  when the credential selector reports that authentication is required, as it does on
  a configured server with trusted keys (\<open>configureAuthorization_trusted_keys\<close>). Then, with
  trusted keys, no user JWT, and no nkey or no system account, the function returns
  \<^verbatim>\<open>false\<close>, the connection is as it was and no effect was produced, whatever the
  tables, the certificate and the external operations are: no later step has a part in
  the result.
\<close>

theorem trusted_keys_require_jwt:
  assumes "fst (getAuthOpts s c opt zero_authOpts)"
    and "trustedKeys s \<noteq> None"
    and "JWT (client.opts c) = []"
    and "clientOpts.Nkey (client.opts c) = [] \<or> SystemAccount (Server.opts s) = []"
  shows "processClientOrLeafAuthentication x s c opt = (False, c, [])"
  using assms
  by (auto simp add: processClientOrLeafAuthentication_def trusted_keys_check_def
      split: prod.splits bool.splits)

theorem trusted_keys_require_jwt_witness:
  "processClientOrLeafAuthentication example_ext operator_server example_client
     (Server.opts operator_server) = (False, example_client, []) \<and>
   processClientOrLeafAuthentication example_ext operator_server
     (example_client \<lparr> client.opts := (client.opts example_client) \<lparr> clientOpts.Nkey := ''UKEY'' \<rparr> \<rparr>)
     (Server.opts operator_server) =
     (False, example_client \<lparr> client.opts := (client.opts example_client) \<lparr> clientOpts.Nkey := ''UKEY'' \<rparr> \<rparr>, [])"
proof -
  let ?c = "example_client \<lparr> client.opts := (client.opts example_client) \<lparr> clientOpts.Nkey := ''UKEY'' \<rparr> \<rparr>"
  have 1: "fst (getAuthOpts operator_server example_client (Server.opts operator_server) zero_authOpts)"
    by (simp add: getAuthOpts_def examples)
  have 2: "trustedKeys operator_server \<noteq> None" by (simp add: examples)
  have 3: "JWT (client.opts example_client) = []" by (simp add: examples)
  have 4: "clientOpts.Nkey (client.opts example_client) = [] \<or>
           SystemAccount (Server.opts operator_server) = []" by (simp add: examples)
  have 5: "fst (getAuthOpts operator_server ?c (Server.opts operator_server) zero_authOpts)"
    by (simp add: getAuthOpts_def examples)
  have 6: "JWT (client.opts ?c) = []" by (simp add: examples)
  have 7: "clientOpts.Nkey (client.opts ?c) = [] \<or> SystemAccount (Server.opts operator_server) = []"
    by (simp add: examples)
  from trusted_keys_require_jwt [OF 1 2 3 4, of example_ext]
    trusted_keys_require_jwt [OF 5 2 6 7, of example_ext]
  show ?thesis by simp
qed






text \<open>With a bearer token the branch for a user JWT never looks at the signature.\<close>

lemma user_jwt_path_bearer:
  "BearerToken juc \<Longrightarrow>
     user_jwt_path (x \<lparr> RawURLEncoding_DecodeString := d1, StdEncoding_DecodeString := d2,
                        FromPublicKey := f, Verify := v \<rparr>) s c juc =
     user_jwt_path x s c juc"
  by (simp add: user_jwt_path_def Let_def split: option.splits)

lemma user_jwt_path_denies:
  assumes "LookupAccount x s (if IssuerAccount juc \<noteq> [] then IssuerAccount juc
                               else UserClaims.Issuer juc) = Some acc"
    and "IsExpired x acc \<or> checkUserRevoked x acc (UserClaims.Subject juc)"
  shows "fst (user_jwt_path x s c juc) = False"
  using assms by (auto simp add: user_jwt_path_def Let_def)

text \<open>The function when a user JWT was presented and decoded.\<close>

lemma ladder_with_claims:
  assumes "fst (getAuthOpts s c opt zero_authOpts)"
    and "trustedKeys s \<noteq> None" and "JWT (client.opts c) \<noteq> []"
    and "DecodeUserClaims x (JWT (client.opts c)) = Some juc"
  shows "processClientOrLeafAuthentication x s c opt =
           (if IsBlocking x juc then (False, c, [])
            else case lookup_candidates s c (snd (getAuthOpts s c opt zero_authOpts)) of
                   Return (b, c') \<Rightarrow> (False, c', [])
                 | Continue (nk, usr, c') \<Rightarrow> user_jwt_path x s c' juc)"
  using assms
  by (cases "getAuthOpts s c opt zero_authOpts")
     (auto simp add: processClientOrLeafAuthentication_def trusted_keys_check_def after_unlock_def
        dest: lookup_candidates_Return split: step.splits prod.splits)

text \<open>
  C6. Where authentication is required, trusted keys are set and the CONNECT carries
  a user JWT that decodes to claims marked as a bearer token:
  \<^item> the verification of the signature has no part in the result: the function gives
    the same result whatever the two base64 decoders, \<^verbatim>\<open>nkeys.FromPublicKey\<close> and
    \<^verbatim>\<open>Verify\<close> return;
  \<^item> when the account of the issuer is expired, or revokes the subject of the JWT,
    the function returns \<^verbatim>\<open>false\<close>;
  \<^item> with an empty CONNECT signature, when the claims are not blocking, the lookup of
    the candidates goes on, and the account is found, trusted, knows the issuer, is not
    expired and does not revoke the subject, and the nkey user registers, the function
    returns \<^verbatim>\<open>true\<close>.
\<close>

theorem bearer_token_skips_signature_only:
  assumes req: "fst (getAuthOpts s c opt zero_authOpts)"
    and tk: "trustedKeys s \<noteq> None"
    and jwt: "JWT (client.opts c) \<noteq> []"
    and dec: "DecodeUserClaims x (JWT (client.opts c)) = Some juc"
    and bearer: "BearerToken juc"
  shows "(\<forall>d1 d2 f v.
            processClientOrLeafAuthentication
              (x \<lparr> RawURLEncoding_DecodeString := d1, StdEncoding_DecodeString := d2,
                    FromPublicKey := f, Verify := v \<rparr>) s c opt =
            processClientOrLeafAuthentication x s c opt) \<and>
         (\<forall>acc. LookupAccount x s (if IssuerAccount juc \<noteq> [] then IssuerAccount juc
                                     else UserClaims.Issuer juc) = Some acc \<and>
                 (IsExpired x acc \<or> checkUserRevoked x acc (UserClaims.Subject juc)) \<longrightarrow>
                 fst (processClientOrLeafAuthentication x s c opt) = False) \<and>
         (\<forall>acc nk usr c'.
            Sig (client.opts c) = [] \<and> \<not> IsBlocking x juc \<and>
            lookup_candidates s c (snd (getAuthOpts s c opt zero_authOpts)) =
              Continue (nk, usr, c') \<and>
            LookupAccount x s (if IssuerAccount juc \<noteq> [] then IssuerAccount juc
                                else UserClaims.Issuer juc) = Some acc \<and>
            isTrustedIssuer x s (Account.Issuer acc) \<and>
            (IssuerAccount juc = [] \<or> hasIssuer x acc (UserClaims.Issuer juc)) \<and>
            \<not> IsExpired x acc \<and> \<not> checkUserRevoked x acc (UserClaims.Subject juc) \<and>
            RegisterNkeyUser x c' (buildInternalNkeyUser x juc acc) \<longrightarrow>
            processClientOrLeafAuthentication x s c opt =
              (True, c' \<lparr> pubKey := UserClaims.Subject juc \<rparr>,
               [Called_RegisterNkeyUser (buildInternalNkeyUser x juc acc),
                Called_accountConnectEvent, Called_checkExpiration juc]))"
proof (intro conjI allI impI)
  fix d1 d2 f v
  let ?x' = "x \<lparr> RawURLEncoding_DecodeString := d1, StdEncoding_DecodeString := d2,
                    FromPublicKey := f, Verify := v \<rparr>"
  have "DecodeUserClaims ?x' (JWT (client.opts c)) = Some juc" using dec by simp
  from ladder_with_claims [OF req tk jwt this] ladder_with_claims [OF req tk jwt dec]
  show "processClientOrLeafAuthentication ?x' s c opt = processClientOrLeafAuthentication x s c opt"
    by (simp add: user_jwt_path_bearer [OF bearer] split: step.splits prod.splits)
next
  fix acc
  assume "LookupAccount x s (if IssuerAccount juc \<noteq> [] then IssuerAccount juc
                                     else UserClaims.Issuer juc) = Some acc \<and>
                 (IsExpired x acc \<or> checkUserRevoked x acc (UserClaims.Subject juc))"
  then have "\<And>c'. fst (user_jwt_path x s c' juc) = False"
    using user_jwt_path_denies by blast
  then show "fst (processClientOrLeafAuthentication x s c opt) = False"
    by (simp add: ladder_with_claims [OF req tk jwt dec] split: step.splits prod.splits)
next
  fix acc nk usr c'
  assume "Sig (client.opts c) = [] \<and> \<not> IsBlocking x juc \<and>
            lookup_candidates s c (snd (getAuthOpts s c opt zero_authOpts)) =
              Continue (nk, usr, c') \<and>
            LookupAccount x s (if IssuerAccount juc \<noteq> [] then IssuerAccount juc
                                else UserClaims.Issuer juc) = Some acc \<and>
            isTrustedIssuer x s (Account.Issuer acc) \<and>
            (IssuerAccount juc = [] \<or> hasIssuer x acc (UserClaims.Issuer juc)) \<and>
            \<not> IsExpired x acc \<and> \<not> checkUserRevoked x acc (UserClaims.Subject juc) \<and>
            RegisterNkeyUser x c' (buildInternalNkeyUser x juc acc)"
  then show "processClientOrLeafAuthentication x s c opt =
              (True, c' \<lparr> pubKey := UserClaims.Subject juc \<rparr>,
               [Called_RegisterNkeyUser (buildInternalNkeyUser x juc acc),
                Called_accountConnectEvent, Called_checkExpiration juc])"
    using bearer
    by (auto simp add: ladder_with_claims [OF req tk jwt dec] user_jwt_path_def Let_def)
qed

theorem bearer_token_skips_signature_only_witness:
  "Sig (client.opts (example_client \<lparr> client.opts := (client.opts example_client) \<lparr> JWT := ''bearer.jwt'' \<rparr> \<rparr>)) = [] \<and>
   processClientOrLeafAuthentication example_ext operator_server
     (example_client \<lparr> client.opts := (client.opts example_client) \<lparr> JWT := ''bearer.jwt'' \<rparr> \<rparr>)
     (Server.opts operator_server) =
     (True,
      example_client \<lparr> client.opts := (client.opts example_client) \<lparr> JWT := ''bearer.jwt'' \<rparr>,
                       pubKey := ''UKEY'' \<rparr>,
      [Called_RegisterNkeyUser \<lparr> NkeyUser.Nkey = ''UKEY'', NkeyUser.Permissions = None,
                                 NkeyUser.Account = Some operator_account, SigningKey = [] \<rparr>,
       Called_accountConnectEvent, Called_checkExpiration bearer_claims]) \<and>
   fst (processClientOrLeafAuthentication example_ext operator_server
     (example_client \<lparr> client.opts := (client.opts example_client) \<lparr> JWT := ''expired.jwt'' \<rparr> \<rparr>)
     (Server.opts operator_server)) = False"
proof -
  let ?c = "example_client \<lparr> client.opts := (client.opts example_client) \<lparr> JWT := ''bearer.jwt'' \<rparr> \<rparr>"
  let ?e = "example_client \<lparr> client.opts := (client.opts example_client) \<lparr> JWT := ''expired.jwt'' \<rparr> \<rparr>"
  let ?o = "Server.opts operator_server"
  have req: "fst (getAuthOpts operator_server ?c ?o zero_authOpts)"
    by (simp add: getAuthOpts_def examples)
  have req': "fst (getAuthOpts operator_server ?e ?o zero_authOpts)"
    by (simp add: getAuthOpts_def examples)
  have tk: "trustedKeys operator_server \<noteq> None" by (simp add: examples)
  have jwt: "JWT (client.opts ?c) \<noteq> []" by simp
  have jwt': "JWT (client.opts ?e) \<noteq> []" by simp
  have dec: "DecodeUserClaims example_ext (JWT (client.opts ?c)) = Some bearer_claims"
    by (simp add: example_ext_def)
  have dec': "DecodeUserClaims example_ext (JWT (client.opts ?e)) = Some expired_claims"
    by (simp add: example_ext_def)
  have bearer: "BearerToken bearer_claims" by (simp add: bearer_claims_def)
  have bearer': "BearerToken expired_claims" by (simp add: expired_claims_def)
  note t = bearer_token_skips_signature_only [OF req tk jwt dec bearer]
  note t' = bearer_token_skips_signature_only [OF req' tk jwt' dec' bearer']
  have a: "Sig (client.opts ?c) = [] \<and> \<not> IsBlocking example_ext bearer_claims \<and>
            lookup_candidates operator_server ?c (snd (getAuthOpts operator_server ?c ?o zero_authOpts)) =
              Continue (None, None, ?c) \<and>
            LookupAccount example_ext operator_server
              (if IssuerAccount bearer_claims \<noteq> [] then IssuerAccount bearer_claims
               else UserClaims.Issuer bearer_claims) = Some operator_account \<and>
            isTrustedIssuer example_ext operator_server (Account.Issuer operator_account) \<and>
            (IssuerAccount bearer_claims = [] \<or>
             hasIssuer example_ext operator_account (UserClaims.Issuer bearer_claims)) \<and>
            \<not> IsExpired example_ext operator_account \<and>
            \<not> checkUserRevoked example_ext operator_account (UserClaims.Subject bearer_claims) \<and>
            RegisterNkeyUser example_ext ?c (buildInternalNkeyUser example_ext bearer_claims operator_account)"
    by (simp add: getAuthOpts_def zero_authOpts_def lookup_candidates_def elems_def examples)
  from t a have 1: "processClientOrLeafAuthentication example_ext operator_server ?c ?o =
              (True, ?c \<lparr> pubKey := UserClaims.Subject bearer_claims \<rparr>,
               [Called_RegisterNkeyUser (buildInternalNkeyUser example_ext bearer_claims operator_account),
                Called_accountConnectEvent, Called_checkExpiration bearer_claims])"
    by blast
  have b: "LookupAccount example_ext operator_server
              (if IssuerAccount expired_claims \<noteq> [] then IssuerAccount expired_claims
               else UserClaims.Issuer expired_claims) = Some expired_account \<and>
           (IsExpired example_ext expired_account \<or>
            checkUserRevoked example_ext expired_account (UserClaims.Subject expired_claims))"
    by (simp add: examples)
  from t' b have 2: "fst (processClientOrLeafAuthentication example_ext operator_server ?e ?o) = False"
    by blast
  from 1 2 show ?thesis
    by (simp add: example_ext_def bearer_claims_def example_client_def)
qed

end
